theory Spec2Isabelle
  imports Complex_Main
begin

section \<open>Values of the training script\<close>

text \<open>
  The embedding follows \<^verbatim>\<open>src/code/main.py\<close>. A tensor is its list of channels
  (dimension 1 of the source's tensors), each channel a flat list of numbers, so that
  \<^verbatim>\<open>torch.cat(ts, 1)\<close> is the concatenation of the channel lists and
  \<^verbatim>\<open>t * args.div_flow\<close> multiplies every entry. Numbers are real: rounding is not
  modelled. A scalar tensor is modelled by its value.
\<close>

type_synonym tensor = "real list list"

definition cat :: "tensor list \<Rightarrow> tensor" where
  "cat ts = concat ts"

definition scale :: "tensor \<Rightarrow> real \<Rightarrow> tensor" where
  "scale t d = map (map (\<lambda>x. x * d)) t"

datatype error =
    IndexError | AttributeError | ZeroDivisionError | AssertionError
  | SystemExit | UnboundLocalError

text \<open>
  A loss accumulator of the source starts as the Python integer \<^verbatim>\<open>0\<close> and becomes a
  tensor with the first \<^verbatim>\<open>+=\<close> of a tensor; \<^verbatim>\<open>0.001*0\<close> is a Python float.
  Only a tensor has \<^verbatim>\<open>.item()\<close>.
\<close>

datatype pyval = PyInt int | PyFloat real | Tensor real

fun py_num :: "pyval \<Rightarrow> real" where
  "py_num (PyInt n) = of_int n"
| "py_num (PyFloat x) = x"
| "py_num (Tensor x) = x"

fun py_add :: "pyval \<Rightarrow> pyval \<Rightarrow> pyval" where
  "py_add (PyInt a) (PyInt b) = PyInt (a + b)"
| "py_add (PyInt a) (PyFloat b) = PyFloat (of_int a + b)"
| "py_add (PyFloat a) (PyInt b) = PyFloat (a + of_int b)"
| "py_add (PyFloat a) (PyFloat b) = PyFloat (a + b)"
| "py_add (Tensor a) y = Tensor (a + py_num y)"
| "py_add x (Tensor b) = Tensor (py_num x + b)"

fun py_mul :: "pyval \<Rightarrow> pyval \<Rightarrow> pyval" where
  "py_mul (PyInt a) (PyInt b) = PyInt (a * b)"
| "py_mul (PyInt a) (PyFloat b) = PyFloat (of_int a * b)"
| "py_mul (PyFloat a) (PyInt b) = PyFloat (a * of_int b)"
| "py_mul (PyFloat a) (PyFloat b) = PyFloat (a * b)"
| "py_mul (Tensor a) y = Tensor (a * py_num y)"
| "py_mul x (Tensor b) = Tensor (py_num x * b)"

fun item :: "pyval \<Rightarrow> error + real" where
  "item (Tensor x) = Inr x"
| "item (PyInt n) = Inl AttributeError"
| "item (PyFloat x) = Inl AttributeError"

text \<open>\<^verbatim>\<open>xs[i]\<close> with \<^verbatim>\<open>i\<close> from a \<^verbatim>\<open>range\<close>: out of range raises.\<close>

definition get :: "'a list \<Rightarrow> nat \<Rightarrow> error + 'a" where
  "get xs i = (if i < length xs then Inr (xs ! i) else Inl IndexError)"

definition ebind :: "error + 'a \<Rightarrow> ('a \<Rightarrow> error + 'b) \<Rightarrow> error + 'b" where
  "ebind r f = (case r of Inl e \<Rightarrow> Inl e | Inr x \<Rightarrow> f x)"

section \<open>Configuration, arguments, batches\<close>

text \<open>The dictionary of \<^verbatim>\<open>get_default_config\<close>, one field per key.\<close>

record config =
  sl_weight :: real
  pl_weight :: real
  fb_weight :: real
  sl_exp :: real
  pl_exp :: real
  fb_exp :: real
  weighted_sl_loss :: bool
  epochs :: int
  multiscale_sl_loss :: bool
  multiscale_pl_loss :: bool
  multiscale_census_loss :: bool
  multiscale_ssim_loss :: bool
  multiscale_fb_loss :: bool
  use_l1_loss :: bool
  unflow_cfg :: bool
  sl :: bool
  census :: bool
  ssim :: bool
  fb :: bool

definition get_default_config :: config where
  "get_default_config =
     \<lparr>sl_weight = 0.002, pl_weight = 1, fb_weight = 1, sl_exp = 0.38, pl_exp = 0.25,
      fb_exp = 0.45, weighted_sl_loss = True, epochs = 1000, multiscale_sl_loss = True,
      multiscale_pl_loss = True, multiscale_census_loss = True,
      multiscale_ssim_loss = True, multiscale_fb_loss = True, use_l1_loss = False,
      unflow_cfg = True, sl = True, census = True, ssim = False, fb = False\<rparr>"

text \<open>The parsed command line, with the fields that \<^verbatim>\<open>main\<close>, \<^verbatim>\<open>train\<close> and
  \<^verbatim>\<open>validate\<close> read.\<close>

record args =
  arch :: string
  solver :: string
  epoch_size :: int
  lr :: real
  momentum :: real
  beta :: real
  weight_decay :: real
  bias_decay :: real
  multiscale_weights :: "real list"
  sparse :: bool
  evaluate :: bool
  div_flow :: real
  milestones :: "int list"
  self_supervised_loss :: bool
  unflow :: bool

text \<open>One element of a data loader: the image pair \<^verbatim>\<open>input\<close>, the target flow and
  \<^verbatim>\<open>target.size(0)\<close>.\<close>

record batch =
  im1 :: tensor
  im2 :: tensor
  target :: tensor
  bsize :: nat

section \<open>External collaborators\<close>

text \<open>
  The functions of \<^verbatim>\<open>own_loss\<close>, \<^verbatim>\<open>multiscaleloss\<close>, \<^verbatim>\<open>models\<close> and
  \<^verbatim>\<open>torch\<close> that the script calls are not part of it; they are parameters. \<open>'p\<close> is
  the model's parameters, \<open>'o\<close> the optimizer's state (learning rate included).
  \<open>model\<close> is the forward pass in training mode (a flow pyramid), \<open>model_eval\<close> the one
  in evaluation mode (a single flow). \<open>optimizer_step\<close> is \<^verbatim>\<open>zero_grad\<close>,
  \<^verbatim>\<open>loss.backward()\<close> and \<^verbatim>\<open>optimizer.step()\<close> for a loss tensor. \<open>adam\<close> and
  \<open>sgd\<close> construct an optimizer from the model's parameters, the bias decay, the
  weight decay, the learning rate and the betas (the momentum); \<open>interpolate t target\<close>
  resizes \<open>t\<close> to the last two dimensions of \<open>target\<close>.
\<close>

record ('p, 'o) env =
  model :: "'p \<Rightarrow> tensor \<Rightarrow> tensor list"
  model_eval :: "'p \<Rightarrow> tensor \<Rightarrow> tensor"
  ternary_loss :: "tensor \<Rightarrow> tensor \<Rightarrow> tensor \<Rightarrow> real"
  smoothness_loss :: "tensor \<Rightarrow> config \<Rightarrow> real"
  ssim_fn :: "tensor \<Rightarrow> tensor \<Rightarrow> tensor \<Rightarrow> real"
  forward_backward_loss :: "tensor \<Rightarrow> tensor \<Rightarrow> tensor \<Rightarrow> tensor \<Rightarrow> config \<Rightarrow> real"
  photometric_loss :: "tensor \<Rightarrow> tensor \<Rightarrow> tensor \<Rightarrow> config \<Rightarrow> real"
  weighted_smoothness_loss :: "tensor \<Rightarrow> tensor \<Rightarrow> tensor \<Rightarrow> config \<Rightarrow> real"
  multiscaleEPE :: "tensor list \<Rightarrow> tensor \<Rightarrow> real list \<Rightarrow> bool \<Rightarrow> real"
  realEPE :: "tensor \<Rightarrow> tensor \<Rightarrow> bool \<Rightarrow> real"
  interpolate :: "tensor \<Rightarrow> tensor \<Rightarrow> tensor"
  adam :: "'p \<Rightarrow> real \<Rightarrow> real \<Rightarrow> real \<Rightarrow> real \<times> real \<Rightarrow> 'o"
  sgd :: "'p \<Rightarrow> real \<Rightarrow> real \<Rightarrow> real \<Rightarrow> real \<Rightarrow> 'o"
  optimizer_step :: "real \<Rightarrow> 'p \<times> 'o \<Rightarrow> 'p \<times> 'o"
  scheduler_step :: "int list \<Rightarrow> real \<Rightarrow> 'o \<Rightarrow> 'o"

section \<open>The multi-scale loops of a batch\<close>

text \<open>
  Every loss term of \<^verbatim>\<open>train\<close> is accumulated by the same loop (lines 341-349,
  355-363, 369-375, 381-388, 440-447, 452-459, 463-470):
  \<^verbatim>\<open>for i in range(n): loss = ...; acc += loss; lst.append(loss.item());
  if not multiscale: break\<close>.
  \<open>body i\<close> is the loss of level \<open>i\<close>.
\<close>

fun multiscale_loop ::
  "bool \<Rightarrow> (nat \<Rightarrow> error + real) \<Rightarrow> nat list \<Rightarrow> pyval \<times> real list \<Rightarrow> error + pyval \<times> real list"
where
  "multiscale_loop ms body [] acc = Inr acc"
| "multiscale_loop ms body (i # ks) acc =
     (case body i of
        Inl e \<Rightarrow> Inl e
      | Inr loss \<Rightarrow>
          (if \<not> ms then Inr (py_add (fst acc) (Tensor loss), snd acc @ [loss])
           else multiscale_loop ms body ks (py_add (fst acc) (Tensor loss), snd acc @ [loss])))"

text \<open>Lines 342-345: the census term of level \<open>i\<close>.\<close>

definition census_level ::
  "('p, 'o) env \<Rightarrow> args \<Rightarrow> batch \<Rightarrow> tensor list \<Rightarrow> tensor list \<Rightarrow> nat \<Rightarrow> error + real" where
  "census_level X a b pred_fw pred_bw i =
     ebind (get pred_fw i) (\<lambda>fw. ebind (get pred_bw i) (\<lambda>bw.
       Inr (ternary_loss X (im2 b) (im1 b) (scale fw (div_flow a))
          + ternary_loss X (im1 b) (im2 b) (scale bw (div_flow a)))))"

text \<open>Lines 356-358: the smoothness term of level \<open>i\<close>.\<close>

definition sl_level ::
  "('p, 'o) env \<Rightarrow> args \<Rightarrow> config \<Rightarrow> tensor list \<Rightarrow> tensor list \<Rightarrow> nat \<Rightarrow> error + real" where
  "sl_level X a cfg pred_fw pred_bw i =
     ebind (get pred_fw i) (\<lambda>fw. ebind (get pred_bw i) (\<lambda>bw.
       Inr (smoothness_loss X (scale fw (div_flow a)) cfg
          + smoothness_loss X (scale bw (div_flow a)) cfg)))"

text \<open>Lines 370-371: the SSIM term of level \<open>i\<close>.\<close>

definition ssim_level ::
  "('p, 'o) env \<Rightarrow> args \<Rightarrow> batch \<Rightarrow> tensor list \<Rightarrow> nat \<Rightarrow> error + real" where
  "ssim_level X a b pred_bw i =
     ebind (get pred_bw i) (\<lambda>bw. Inr (ssim_fn X (im1 b) (im2 b) (scale bw (div_flow a))))"

text \<open>Lines 382-384: the forward-backward term of level \<open>i\<close>.\<close>

definition fb_level ::
  "('p, 'o) env \<Rightarrow> args \<Rightarrow> config \<Rightarrow> batch \<Rightarrow> tensor list \<Rightarrow> tensor list \<Rightarrow> nat \<Rightarrow> error + real" where
  "fb_level X a cfg b pred_fw pred_bw i =
     ebind (get pred_fw i) (\<lambda>fw. ebind (get pred_bw i) (\<lambda>bw.
       Inr (forward_backward_loss X (im1 b) (im2 b)
              (scale fw (div_flow a)) (scale bw (div_flow a)) cfg)))"

text \<open>The four loops of the unflow variant, each from \<^verbatim>\<open>0\<close> and \<^verbatim>\<open>[]\<close>; the
  census and smoothness loops run over \<^verbatim>\<open>range(len(pred_fw))\<close>, the SSIM and
  forward-backward loops over \<^verbatim>\<open>range(len(pred_bw))\<close>.\<close>

definition census_loop ::
  "('p, 'o) env \<Rightarrow> args \<Rightarrow> config \<Rightarrow> batch \<Rightarrow> tensor list \<Rightarrow> tensor list \<Rightarrow> error + pyval \<times> real list" where
  "census_loop X a cfg b pred_fw pred_bw =
     multiscale_loop (multiscale_census_loss cfg) (census_level X a b pred_fw pred_bw)
       [0..<length pred_fw] (PyInt 0, [])"

definition sl_loop ::
  "('p, 'o) env \<Rightarrow> args \<Rightarrow> config \<Rightarrow> tensor list \<Rightarrow> tensor list \<Rightarrow> error + pyval \<times> real list" where
  "sl_loop X a cfg pred_fw pred_bw =
     multiscale_loop (multiscale_sl_loss cfg) (sl_level X a cfg pred_fw pred_bw)
       [0..<length pred_fw] (PyInt 0, [])"

definition ssim_loop ::
  "('p, 'o) env \<Rightarrow> args \<Rightarrow> config \<Rightarrow> batch \<Rightarrow> tensor list \<Rightarrow> error + pyval \<times> real list" where
  "ssim_loop X a cfg b pred_bw =
     multiscale_loop (multiscale_ssim_loss cfg) (ssim_level X a b pred_bw)
       [0..<length pred_bw] (PyInt 0, [])"

definition fb_loop ::
  "('p, 'o) env \<Rightarrow> args \<Rightarrow> config \<Rightarrow> batch \<Rightarrow> tensor list \<Rightarrow> tensor list \<Rightarrow> error + pyval \<times> real list" where
  "fb_loop X a cfg b pred_fw pred_bw =
     multiscale_loop (multiscale_fb_loss cfg) (fb_level X a cfg b pred_fw pred_bw)
       [0..<length pred_bw] (PyInt 0, [])"

section \<open>State, effects and failure\<close>

text \<open>
  What the script mutates: the model's parameters and mode, the optimizer, the
  gradient-tracking mode of \<^verbatim>\<open>torch\<close>, the globals \<^verbatim>\<open>n_iter\<close> and
  \<^verbatim>\<open>best_EPE\<close>. \<open>trace\<close> lists, in order, the calls made to the collaborators:
  a forward pass (its input, \<^verbatim>\<open>model.training\<close>, gradient tracking on),
  \<^verbatim>\<open>add_scalar\<close> of a summary writer, an optimization step (the loss value),
  \<^verbatim>\<open>scheduler.step()\<close>, and a record given to the checkpoint sink with its
  \<^verbatim>\<open>is_best\<close> flag. Printing, timing and the images that \<^verbatim>\<open>validate\<close> logs are
  left out.
\<close>

record 'p checkpoint =
  ck_epoch :: int
  ck_arch :: string
  ck_state_dict :: 'p
  ck_best_EPE :: real
  ck_div_flow :: real

datatype writer = TrainWriter | TestWriter

datatype 'p event =
    Forward tensor bool bool
  | Scalar writer string real int
  | OptimStep real
  | SchedulerStep
  | Checkpoint "'p checkpoint" bool

record ('p, 'o) state =
  params :: 'p
  opt :: "'o option"
  training :: bool
  grad_enabled :: bool
  n_iter :: int
  best_EPE :: real
  trace :: "'p event list"

text \<open>Lines 87-88 and the defaults of \<^verbatim>\<open>torch\<close>: a new module is in training mode,
  gradient tracking is on, no optimizer is bound yet.\<close>

definition init_state :: "'p \<Rightarrow> ('p, 'o) state" where
  "init_state p0 =
     \<lparr>params = p0, opt = None, training = True, grad_enabled = True,
      n_iter = 0, best_EPE = - 1, trace = []\<rparr>"

text \<open>A statement of the script runs on a state and returns a value or raises; the
  state it reached is kept in both cases.\<close>

type_synonym ('s, 'a) run = "'s \<Rightarrow> (error + 'a) \<times> 's"

definition ret :: "'a \<Rightarrow> ('s, 'a) run" where
  "ret x = (\<lambda>s. (Inr x, s))"

definition raise :: "error \<Rightarrow> ('s, 'a) run" where
  "raise e = (\<lambda>s. (Inl e, s))"

definition lift :: "error + 'a \<Rightarrow> ('s, 'a) run" where
  "lift r = (\<lambda>s. (r, s))"

definition bnd :: "('s, 'a) run \<Rightarrow> ('a \<Rightarrow> ('s, 'b) run) \<Rightarrow> ('s, 'b) run" where
  "bnd m f = (\<lambda>s. case m s of (Inl e, s') \<Rightarrow> (Inl e, s') | (Inr x, s') \<Rightarrow> f x s')"

definition reads :: "('s \<Rightarrow> 'a) \<Rightarrow> ('s, 'a) run" where
  "reads f = (\<lambda>s. (Inr (f s), s))"

definition modify :: "('s \<Rightarrow> 's) \<Rightarrow> ('s, unit) run" where
  "modify f = (\<lambda>s. (Inr (), f s))"

definition emit :: "'p event \<Rightarrow> (('p, 'o) state, unit) run" where
  "emit ev = modify (\<lambda>s. s\<lparr>trace := trace s @ [ev]\<rparr>)"

text \<open>\<^verbatim>\<open>model(x)\<close> after \<^verbatim>\<open>model.train()\<close>, and after \<^verbatim>\<open>model.eval()\<close>.\<close>

definition call_model :: "('p, 'o) env \<Rightarrow> tensor \<Rightarrow> (('p, 'o) state, tensor list) run" where
  "call_model X x =
     bnd (reads (\<lambda>s. Forward x (training s) (grad_enabled s))) (\<lambda>ev.
     bnd (emit ev) (\<lambda>_. reads (\<lambda>s. model X (params s) x)))"

definition call_model_eval :: "('p, 'o) env \<Rightarrow> tensor \<Rightarrow> (('p, 'o) state, tensor) run" where
  "call_model_eval X x =
     bnd (reads (\<lambda>s. Forward x (training s) (grad_enabled s))) (\<lambda>ev.
     bnd (emit ev) (\<lambda>_. reads (\<lambda>s. model_eval X (params s) x)))"

text \<open>\<^verbatim>\<open>train_writer.add_scalar(name, v.item(), n_iter)\<close>.\<close>

definition log_item :: "string \<Rightarrow> pyval \<Rightarrow> (('p, 'o) state, unit) run" where
  "log_item name v =
     bnd (lift (item v)) (\<lambda>x. bnd (reads n_iter) (\<lambda>n. emit (Scalar TrainWriter name x n)))"

text \<open>\<^verbatim>\<open>optimizer.zero_grad(); loss.backward(); optimizer.step()\<close>.\<close>

definition optimize :: "('p, 'o) env \<Rightarrow> real \<Rightarrow> (('p, 'o) state, unit) run" where
  "optimize X loss =
     (\<lambda>s. case opt s of
        None \<Rightarrow> (Inl UnboundLocalError, s)
      | Some ob \<Rightarrow>
          (case optimizer_step X loss (params s, ob) of
             (p', ob') \<Rightarrow>
               (Inr (), s\<lparr>params := p', opt := Some ob', trace := trace s @ [OptimStep loss]\<rparr>)))"

text \<open>\<^verbatim>\<open>with torch.no_grad():\<close> switches gradient tracking off and restores the
  previous mode on the way out, also when the body raises.\<close>

definition with_no_grad :: "(('p, 'o) state, 'a) run \<Rightarrow> (('p, 'o) state, 'a) run" where
  "with_no_grad m =
     (\<lambda>s. case m (s\<lparr>grad_enabled := False\<rparr>) of
        (r, s') \<Rightarrow> (r, s'\<lparr>grad_enabled := grad_enabled s\<rparr>))"

section \<open>The metric accumulator\<close>

text \<open>
  Modelled from the spec: \<^verbatim>\<open>AverageMeter\<close> of \<^verbatim>\<open>util\<close>, which is not among the
  sources. A (sum, count) pair, both zero after a reset; after recording values with
  their counts the running average is the weighted sum over the total count. The
  division raises when the total count is zero.
\<close>

record meter =
  msum :: real
  mcount :: nat
  avg :: real

definition AverageMeter :: meter where
  "AverageMeter = \<lparr>msum = 0, mcount = 0, avg = 0\<rparr>"

definition update :: "real \<Rightarrow> nat \<Rightarrow> meter \<Rightarrow> error + meter" where
  "update val n m =
     (if mcount m + n = 0 then Inl ZeroDivisionError
      else Inr \<lparr>msum = msum m + val * real n, mcount = mcount m + n,
                avg = (msum m + val * real n) / real (mcount m + n)\<rparr>)"

section \<open>One training batch\<close>

text \<open>Lines 327-332, the two forward passes of the unflow variant.\<close>

definition predict_bidirectional ::
  "('p, 'o) env \<Rightarrow> batch \<Rightarrow> (('p, 'o) state, tensor list \<times> tensor list) run" where
  "predict_bidirectional X b =
     bnd (call_model X (cat [im1 b, im2 b])) (\<lambda>pred_fw.
     bnd (call_model X (cat [im2 b, im1 b])) (\<lambda>pred_bw.
     ret (pred_fw, pred_bw)))"

text \<open>Lines 336-350, 352-364, 366-376, 378-389: a term is the integer \<^verbatim>\<open>0\<close> unless its
  flag is set; a computed term is logged through \<^verbatim>\<open>.item()\<close>.\<close>

definition census_term ::
  "('p, 'o) env \<Rightarrow> args \<Rightarrow> config \<Rightarrow> batch \<Rightarrow> tensor list \<Rightarrow> tensor list \<Rightarrow> (('p, 'o) state, pyval) run" where
  "census_term X a cfg b pred_fw pred_bw =
     (if census cfg then
        bnd (lift (census_loop X a cfg b pred_fw pred_bw)) (\<lambda>r.
        bnd (log_item ''train_loss_census'' (fst r)) (\<lambda>_. ret (fst r)))
      else ret (PyInt 0))"

definition sl_term ::
  "('p, 'o) env \<Rightarrow> args \<Rightarrow> config \<Rightarrow> tensor list \<Rightarrow> tensor list \<Rightarrow> (('p, 'o) state, pyval) run" where
  "sl_term X a cfg pred_fw pred_bw =
     (if sl cfg then
        bnd (lift (sl_loop X a cfg pred_fw pred_bw)) (\<lambda>r.
        bnd (log_item ''train_loss_sl'' (fst r)) (\<lambda>_. ret (fst r)))
      else ret (PyInt 0))"

definition ssim_term ::
  "('p, 'o) env \<Rightarrow> args \<Rightarrow> config \<Rightarrow> batch \<Rightarrow> tensor list \<Rightarrow> (('p, 'o) state, pyval) run" where
  "ssim_term X a cfg b pred_bw =
     (if ssim cfg then
        bnd (lift (ssim_loop X a cfg b pred_bw)) (\<lambda>r.
        bnd (log_item ''train_loss_ssim'' (fst r)) (\<lambda>_. ret (fst r)))
      else ret (PyInt 0))"

definition fb_term ::
  "('p, 'o) env \<Rightarrow> args \<Rightarrow> config \<Rightarrow> batch \<Rightarrow> tensor list \<Rightarrow> tensor list \<Rightarrow> (('p, 'o) state, pyval) run" where
  "fb_term X a cfg b pred_fw pred_bw =
     (if fb cfg then
        bnd (lift (fb_loop X a cfg b pred_fw pred_bw)) (\<lambda>r.
        bnd (log_item ''train_loss_fb'' (fst r)) (\<lambda>_. ret (fst r)))
      else ret (PyInt 0))"

text \<open>Lines 336-398: the combined loss of the unflow variant.\<close>

definition unflow_loss ::
  "('p, 'o) env \<Rightarrow> args \<Rightarrow> config \<Rightarrow> batch \<Rightarrow> tensor list \<Rightarrow> tensor list \<Rightarrow> (('p, 'o) state, pyval) run" where
  "unflow_loss X a cfg b pred_fw pred_bw =
     bnd (census_term X a cfg b pred_fw pred_bw) (\<lambda>census_loss.
     bnd (sl_term X a cfg pred_fw pred_bw) (\<lambda>sl_loss.
     bnd (ssim_term X a cfg b pred_bw) (\<lambda>ssim_loss.
     bnd (fb_term X a cfg b pred_fw pred_bw) (\<lambda>fb_loss.
     ret (py_add (py_add (py_add census_loss sl_loss) ssim_loss)
            (py_mul (PyFloat 0.001) fb_loss))))))"

text \<open>\<^verbatim>\<open>n_iter += 1\<close>.\<close>

definition count_iteration :: "(('p, 'o) state, unit) run" where
  "count_iteration = modify (\<lambda>s. s\<lparr>n_iter := n_iter s + 1\<rparr>)"

text \<open>Lines 336-420, the body of the unflow loop after the forward passes; the two
  meters are \<^verbatim>\<open>losses\<close> and \<^verbatim>\<open>flow2_EPEs\<close>.\<close>

definition unflow_body ::
  "('p, 'o) env \<Rightarrow> args \<Rightarrow> config \<Rightarrow> batch \<Rightarrow> meter \<times> meter \<Rightarrow> tensor list \<Rightarrow> tensor list \<Rightarrow>
   (('p, 'o) state, meter \<times> meter) run" where
  "unflow_body X a cfg b ms pred_fw pred_bw =
     bnd (unflow_loss X a cfg b pred_fw pred_bw) (\<lambda>loss.
     bnd (lift (get pred_bw 0)) (\<lambda>flow.
     bnd (lift (item loss)) (\<lambda>lv.
     bnd (lift (update lv (bsize b) (fst ms))) (\<lambda>losses.
     bnd (log_item ''train_loss'' loss) (\<lambda>_.
     bnd (lift (update (div_flow a * realEPE X flow (target b) (sparse a)) (bsize b) (snd ms)))
       (\<lambda>flow2_EPEs.
     bnd (optimize X lv) (\<lambda>_.
     bnd count_iteration (\<lambda>_.
     ret (losses, flow2_EPEs)))))))))"

text \<open>Lines 323-420, the body of the unflow loop.\<close>

definition unflow_batch ::
  "('p, 'o) env \<Rightarrow> args \<Rightarrow> config \<Rightarrow> batch \<Rightarrow> meter \<times> meter \<Rightarrow> (('p, 'o) state, meter \<times> meter) run" where
  "unflow_batch X a cfg b ms =
     bnd (predict_bidirectional X b) (\<lambda>preds.
     unflow_body X a cfg b ms (fst preds) (snd preds))"

text \<open>Lines 281-315, the body of the loop on the supervised loss.\<close>

definition legacy_batch ::
  "('p, 'o) env \<Rightarrow> args \<Rightarrow> batch \<Rightarrow> meter \<times> meter \<Rightarrow> (('p, 'o) state, meter \<times> meter) run" where
  "legacy_batch X a b ms =
     bnd (call_model X (cat [im1 b, im2 b])) (\<lambda>out0.
     bnd (if sparse a
          then lift (ebind (get out0 0) (\<lambda>o0. Inr (interpolate X o0 (target b) # drop 1 out0)))
          else ret out0) (\<lambda>output.
     bnd (lift (get output 0)) (\<lambda>o0.
     bnd (lift (update (multiscaleEPE X output (target b) (multiscale_weights a) (sparse a))
                 (bsize b) (fst ms))) (\<lambda>losses.
     bnd (log_item ''train_loss''
            (Tensor (multiscaleEPE X output (target b) (multiscale_weights a) (sparse a)))) (\<lambda>_.
     bnd (lift (update (div_flow a * realEPE X o0 (target b) (sparse a)) (bsize b) (snd ms)))
       (\<lambda>flow2_EPEs.
     bnd (optimize X (multiscaleEPE X output (target b) (multiscale_weights a) (sparse a))) (\<lambda>_.
     bnd count_iteration (\<lambda>_.
     ret (losses, flow2_EPEs)))))))))"

text \<open>Lines 441-442, 453-454, 464-465: the terms of level \<open>i\<close> of the self-supervised,
  single-direction variant.\<close>

definition pl_level ::
  "('p, 'o) env \<Rightarrow> args \<Rightarrow> config \<Rightarrow> batch \<Rightarrow> tensor list \<Rightarrow> nat \<Rightarrow> error + real" where
  "pl_level X a cfg b pred i =
     ebind (get pred i) (\<lambda>f. Inr (photometric_loss X (im1 b) (im2 b) (scale f (div_flow a)) cfg))"

definition weighted_sl_level ::
  "('p, 'o) env \<Rightarrow> args \<Rightarrow> config \<Rightarrow> batch \<Rightarrow> tensor list \<Rightarrow> nat \<Rightarrow> error + real" where
  "weighted_sl_level X a cfg b pred i =
     ebind (get pred i)
       (\<lambda>f. Inr (weighted_smoothness_loss X (im1 b) (im2 b) (scale f (div_flow a)) cfg))"

definition plain_sl_level ::
  "('p, 'o) env \<Rightarrow> args \<Rightarrow> config \<Rightarrow> tensor list \<Rightarrow> nat \<Rightarrow> error + real" where
  "plain_sl_level X a cfg pred i =
     ebind (get pred i) (\<lambda>f. Inr (smoothness_loss X (scale f (div_flow a)) cfg))"

text \<open>Lines 429-500, the body of the self-supervised loop.\<close>

definition selfsup_batch ::
  "('p, 'o) env \<Rightarrow> args \<Rightarrow> config \<Rightarrow> batch \<Rightarrow> meter \<times> meter \<Rightarrow> (('p, 'o) state, meter \<times> meter) run" where
  "selfsup_batch X a cfg b ms =
     bnd (call_model X (cat [im1 b, im2 b])) (\<lambda>pred.
     bnd (lift (multiscale_loop (multiscale_pl_loss cfg) (pl_level X a cfg b pred)
                 [0..<length pred] (PyInt 0, []))) (\<lambda>pl.
     bnd (lift (multiscale_loop (multiscale_sl_loss cfg)
                 (if weighted_sl_loss cfg then weighted_sl_level X a cfg b pred
                  else plain_sl_level X a cfg pred)
                 [0..<length pred] (PyInt 0, []))) (\<lambda>sm.
     bnd (lift (get pred 0)) (\<lambda>flow.
     bnd (lift (item (py_add (fst pl) (fst sm)))) (\<lambda>lv.
     bnd (lift (update lv (bsize b) (fst ms))) (\<lambda>losses.
     bnd (log_item ''train_loss'' (py_add (fst pl) (fst sm))) (\<lambda>_.
     bnd (log_item ''train_loss_pl'' (fst pl)) (\<lambda>_.
     bnd (log_item ''train_loss_sl'' (fst sm)) (\<lambda>_.
     bnd (lift (update (div_flow a * realEPE X flow (target b) (sparse a)) (bsize b) (snd ms)))
       (\<lambda>flow2_EPEs.
     bnd (optimize X lv) (\<lambda>_.
     bnd count_iteration (\<lambda>_.
     ret (losses, flow2_EPEs)))))))))))))"

section \<open>An epoch of training, a validation pass\<close>

text \<open>Line 272.\<close>

definition train_epoch_size :: "args \<Rightarrow> nat \<Rightarrow> int" where
  "train_epoch_size a len =
     (if epoch_size a = 0 then int len else min (int len) (epoch_size a))"

text \<open>
  The loops \<^verbatim>\<open>for it, (input, target) in enumerate(train_loader)\<close> of lines 281, 323
  and 429: the body, then \<^verbatim>\<open>if it >= epoch_size: break\<close> (lines 316, 421, 501).
\<close>

fun batch_loop ::
  "(batch \<Rightarrow> meter \<times> meter \<Rightarrow> (('p, 'o) state, meter \<times> meter) run) \<Rightarrow> int \<Rightarrow> nat \<Rightarrow>
   batch list \<Rightarrow> meter \<times> meter \<Rightarrow> (('p, 'o) state, meter \<times> meter) run"
where
  "batch_loop body esize it [] ms s = (Inr ms, s)"
| "batch_loop body esize it (b # bs) ms s =
     (case body b ms s of
        (Inl e, s') \<Rightarrow> (Inl e, s')
      | (Inr ms', s') \<Rightarrow>
          (if esize \<le> int it then (Inr ms', s')
           else batch_loop body esize (Suc it) bs ms' s'))"

text \<open>Lines 264-504. The variant is chosen by \<^verbatim>\<open>args.self_supervised_loss\<close> and
  \<^verbatim>\<open>args.unflow\<close>.\<close>

definition train ::
  "('p, 'o) env \<Rightarrow> args \<Rightarrow> config \<Rightarrow> batch list \<Rightarrow> nat \<Rightarrow> (('p, 'o) state, real \<times> real) run" where
  "train X a cfg train_loader epoch =
     bnd (modify (\<lambda>s. s\<lparr>training := True\<rparr>)) (\<lambda>_.
     bnd (batch_loop
            (if \<not> self_supervised_loss a then legacy_batch X a
             else if unflow a then unflow_batch X a cfg
             else selfsup_batch X a cfg)
            (train_epoch_size a (length train_loader)) 0 train_loader
            (AverageMeter, AverageMeter)) (\<lambda>ms.
     ret (avg (fst ms), avg (snd ms))))"

text \<open>Lines 515-523, the body of the validation loop.\<close>

definition validate_batch ::
  "('p, 'o) env \<Rightarrow> args \<Rightarrow> batch \<Rightarrow> meter \<Rightarrow> (('p, 'o) state, meter) run" where
  "validate_batch X a b m =
     bnd (call_model_eval X (cat [im1 b, im2 b])) (\<lambda>output.
     lift (update (div_flow a * realEPE X output (target b) (sparse a)) (bsize b) m))"

fun validate_loop ::
  "('p, 'o) env \<Rightarrow> args \<Rightarrow> batch list \<Rightarrow> meter \<Rightarrow> (('p, 'o) state, meter) run"
where
  "validate_loop X a [] m s = (Inr m, s)"
| "validate_loop X a (b # bs) m s =
     (case validate_batch X a b m s of
        (Inl e, s') \<Rightarrow> (Inl e, s')
      | (Inr m', s') \<Rightarrow> validate_loop X a bs m' s')"

text \<open>Lines 506-543.\<close>

definition validate ::
  "('p, 'o) env \<Rightarrow> args \<Rightarrow> batch list \<Rightarrow> nat \<Rightarrow> (('p, 'o) state, real) run" where
  "validate X a val_loader epoch =
     bnd (modify (\<lambda>s. s\<lparr>training := False\<rparr>)) (\<lambda>_.
     bnd (validate_loop X a val_loader AverageMeter) (\<lambda>flow2_EPEs.
     ret (avg flow2_EPEs)))"

section \<open>The run\<close>

text \<open>
  Modelled from the spec: \<^verbatim>\<open>save_checkpoint\<close> of \<^verbatim>\<open>util\<close>, which is not among the
  sources. Given a record and the flag, the checkpoint sink persists the record and, if
  best, a duplicate marked best: the event \<open>Checkpoint r is_best\<close> stands for the
  persisted record, marked best when the flag is set.
\<close>

definition save_checkpoint :: "'p checkpoint \<Rightarrow> bool \<Rightarrow> (('p, 'o) state, unit) run" where
  "save_checkpoint r is_best = emit (Checkpoint r is_best)"

text \<open>\<^verbatim>\<open>scheduler.step()\<close> of the \<^verbatim>\<open>MultiStepLR\<close> of line 231 (gamma 0.5), which
  acts on the optimizer.\<close>

definition step_scheduler :: "('p, 'o) env \<Rightarrow> args \<Rightarrow> (('p, 'o) state, unit) run" where
  "step_scheduler X a =
     (\<lambda>s. case opt s of
        None \<Rightarrow> (Inl UnboundLocalError, s)
      | Some ob \<Rightarrow>
          (Inr (), s\<lparr>opt := Some (scheduler_step X (milestones a) (1 / 2) ob),
                     trace := trace s @ [SchedulerStep]\<rparr>))"

text \<open>Lines 246-259, the end of an epoch whose validation returned \<open>EPE\<close>.\<close>

definition epoch_end :: "args \<Rightarrow> nat \<Rightarrow> real \<Rightarrow> (('p, 'o) state, unit) run" where
  "epoch_end a epoch EPE =
     bnd (emit (Scalar TestWriter ''mean EPE'' EPE (int epoch))) (\<lambda>_.
     bnd (modify (\<lambda>s. if best_EPE s < 0 then s\<lparr>best_EPE := EPE\<rparr> else s)) (\<lambda>_.
     bnd (reads (\<lambda>s. EPE < best_EPE s)) (\<lambda>is_best.
     bnd (modify (\<lambda>s. s\<lparr>best_EPE := min EPE (best_EPE s)\<rparr>)) (\<lambda>_.
     bnd (reads (\<lambda>s. \<lparr>ck_epoch = int epoch + 1, ck_arch = arch a, ck_state_dict = params s,
                      ck_best_EPE = best_EPE s, ck_div_flow = div_flow a\<rparr>)) (\<lambda>r.
     save_checkpoint r is_best)))))"

text \<open>Lines 237-259, one pass of the epoch loop. \<open>train_loader epoch\<close> is the sequence
  of batches that the shuffling loader yields in that epoch.\<close>

definition epoch_step ::
  "('p, 'o) env \<Rightarrow> args \<Rightarrow> config \<Rightarrow> (nat \<Rightarrow> batch list) \<Rightarrow> batch list \<Rightarrow> nat \<Rightarrow>
   (('p, 'o) state, unit) run" where
  "epoch_step X a cfg train_loader val_loader epoch =
     bnd (train X a cfg (train_loader epoch) epoch) (\<lambda>r.
     bnd (step_scheduler X a) (\<lambda>_.
     bnd (emit (Scalar TrainWriter ''mean EPE'' (snd r) (int epoch))) (\<lambda>_.
     bnd (with_no_grad (validate X a val_loader epoch)) (\<lambda>EPE.
     epoch_end a epoch EPE))))"

fun epoch_loop ::
  "('p, 'o) env \<Rightarrow> args \<Rightarrow> config \<Rightarrow> (nat \<Rightarrow> batch list) \<Rightarrow> batch list \<Rightarrow> nat list \<Rightarrow>
   (('p, 'o) state, unit) run"
where
  "epoch_loop X a cfg train_loader val_loader [] s = (Inr (), s)"
| "epoch_loop X a cfg train_loader val_loader (epoch # es) s =
     (case epoch_step X a cfg train_loader val_loader epoch s of
        (Inl e, s') \<Rightarrow> (Inl e, s')
      | (Inr u, s') \<Rightarrow> epoch_loop X a cfg train_loader val_loader es s')"

text \<open>Lines 216-225: the assertion on the solver and the construction of the
  optimizer.\<close>

definition make_optimizer :: "('p, 'o) env \<Rightarrow> args \<Rightarrow> (('p, 'o) state, unit) run" where
  "make_optimizer X a =
     bnd (if solver a \<in> set [''adam'', ''sgd''] then ret () else raise AssertionError) (\<lambda>_.
     if solver a = ''adam'' then
       modify (\<lambda>s. s\<lparr>opt := Some (adam X (params s) (bias_decay a) (weight_decay a) (lr a)
                                      (momentum a, beta a))\<rparr>)
     else if solver a = ''sgd'' then
       modify (\<lambda>s. s\<lparr>opt := Some (sgd X (params s) (bias_decay a) (weight_decay a) (lr a)
                                      (momentum a))\<rparr>)
     else ret ())"

text \<open>Lines 122-261, from the solver on; the data sets and the model are given. The
  result is \<^verbatim>\<open>None\<close> in evaluation mode and \<^verbatim>\<open>best_EPE\<close> after training.\<close>

definition main ::
  "('p, 'o) env \<Rightarrow> args \<Rightarrow> config \<Rightarrow> (nat \<Rightarrow> batch list) \<Rightarrow> batch list \<Rightarrow>
   (('p, 'o) state, real option) run" where
  "main X a cfg train_loader val_loader =
     bnd (make_optimizer X a) (\<lambda>_.
     if evaluate a then
       bnd (validate X a val_loader 0) (\<lambda>EPE.
       bnd (modify (\<lambda>s. s\<lparr>best_EPE := EPE\<rparr>)) (\<lambda>_. ret None))
     else
       bnd (epoch_loop X a cfg train_loader val_loader [0..<nat (epochs cfg)]) (\<lambda>_.
       bnd (reads best_EPE) (\<lambda>best. ret (Some best))))"

text \<open>Lines 45-46 and 85: \<^verbatim>\<open>parse_args\<close> exits on a solver that is not one of the
  choices.\<close>

definition parse_args :: "args \<Rightarrow> error + args" where
  "parse_args a = (if solver a \<in> set [''adam'', ''sgd''] then Inr a else Inl SystemExit)"

text \<open>The script: the command line is parsed when the module is loaded, then
  \<^verbatim>\<open>main()\<close> runs from the initial globals on a model with parameters \<open>p0\<close>.\<close>

definition script ::
  "('p, 'o) env \<Rightarrow> args \<Rightarrow> config \<Rightarrow> (nat \<Rightarrow> batch list) \<Rightarrow> batch list \<Rightarrow> 'p \<Rightarrow>
   (error + real option) \<times> ('p, 'o) state" where
  "script X a cfg train_loader val_loader p0 =
     bnd (lift (parse_args a)) (\<lambda>a'. main X a' cfg train_loader val_loader) (init_state p0)"

section \<open>Reading a trace\<close>

fun is_forward :: "'p event \<Rightarrow> bool" where
  "is_forward (Forward x t g) = True"
| "is_forward e = False"

fun is_step :: "'p event \<Rightarrow> bool" where
  "is_step (OptimStep v) = True"
| "is_step e = False"





text \<open>A statement \<open>m\<close> relates every state to the state it leaves, returning or
  raising.\<close>

definition relates :: "('s \<Rightarrow> 's \<Rightarrow> bool) \<Rightarrow> ('s, 'a) run \<Rightarrow> bool" where
  "relates R m = (\<forall>s. R s (snd (m s)))"

definition same :: "('s \<Rightarrow> 'v) \<Rightarrow> 's \<Rightarrow> 's \<Rightarrow> bool" where
  "same v s s' = (v s' = v s)"

text \<open>A relation between states that holds across a forward pass and a scalar of the
  train writer.\<close>

definition quiet_effects :: "(('p, 'o) state \<Rightarrow> ('p, 'o) state \<Rightarrow> bool) \<Rightarrow> bool" where
  "quiet_effects R =
     (reflp R \<and> transp R \<and>
      (\<forall>s x t g. R s (s\<lparr>trace := trace s @ [Forward x t g]\<rparr>)) \<and>
      (\<forall>s n x k. R s (s\<lparr>trace := trace s @ [Scalar TrainWriter n x k]\<rparr>)))"



text \<open>A statement that adds one to \<^verbatim>\<open>n_iter\<close> when it returns and leaves it as it is
  when it raises.\<close>

definition counts_one :: "(('p, 'o) state, 'a) run \<Rightarrow> bool" where
  "counts_one m =
     (\<forall>s. n_iter (snd (m s)) = n_iter s + (case fst (m s) of Inl e \<Rightarrow> 0 | Inr r \<Rightarrow> 1))"



section \<open>A small instance\<close>

text \<open>The defaults of the argument parser (lines 29-83).\<close>

definition default_args :: args where
  "default_args =
     \<lparr>arch = ''flownets'', solver = ''adam'', epoch_size = 1000, lr = 0.0001,
      momentum = 0.9, beta = 0.999, weight_decay = 0.0004, bias_decay = 0,
      multiscale_weights = [0.005, 0.01, 0.02, 0.08, 0.32], sparse = False,
      evaluate = False, div_flow = 20, milestones = [100, 150, 200],
      self_supervised_loss = True, unflow = True\<rparr>"

text \<open>
  Collaborators small enough to run by hand: the model has one parameter \<open>p\<close> and
  predicts the two-level pyramid \<open>[[[p]], [[p + 1]]]\<close> (the single flow \<open>[[p]]\<close> in
  evaluation mode), a loss or error of a flow is the sum of its entries or a constant,
  and an optimization step adds one to the parameter and to a step counter.
\<close>

definition toy_env :: "(real, nat) env" where
  "toy_env =
     \<lparr>model = (\<lambda>p x. [[[p]], [[p + 1]]]),
      model_eval = (\<lambda>p x. [[p]]),
      ternary_loss = (\<lambda>i1 i2 f. sum_list (concat f)),
      smoothness_loss = (\<lambda>f c. 1),
      ssim_fn = (\<lambda>i1 i2 f. 2),
      forward_backward_loss = (\<lambda>i1 i2 f g c. 3),
      photometric_loss = (\<lambda>i1 i2 f c. sum_list (concat f)),
      weighted_smoothness_loss = (\<lambda>i1 i2 f c. 1),
      multiscaleEPE = (\<lambda>out t w sp. 1),
      realEPE = (\<lambda>out t sp. sum_list (concat out)),
      interpolate = (\<lambda>t tg. t),
      adam = (\<lambda>p bd wd l betas. 0),
      sgd = (\<lambda>p bd wd l m. 0),
      optimizer_step = (\<lambda>loss po. (fst po + 1, snd po + 1)),
      scheduler_step = (\<lambda>ms g ob. ob)\<rparr>"

definition toy_batch :: batch where
  "toy_batch = \<lparr>im1 = [[1]], im2 = [[2]], target = [[0]], bsize = 1\<rparr>"

text \<open>A train loader of one batch per epoch, and the same collaborators with an
  optimization step that takes one from the parameter, so that the validation error
  falls from epoch to epoch.\<close>

definition toy_loader :: "nat \<Rightarrow> batch list" where
  "toy_loader epoch = [toy_batch]"

definition toy_env_descent :: "(real, nat) env" where
  "toy_env_descent = toy_env\<lparr>optimizer_step := (\<lambda>loss po. (fst po - 1, snd po + 1))\<rparr>"

section \<open>The multi-scale loops\<close>

lemma py_num_py_add: "py_num (py_add x y) = py_num x + py_num y"
  by (cases x; cases y) simp_all

lemma py_add_Tensor: "py_add x (Tensor v) = Tensor (py_num x + v)"
  by (cases x) simp_all

lemma get_in_range: "i < length xs \<Longrightarrow> get xs i = Inr (xs ! i)"
  by (simp add: get_def)

lemma multiscale_loop_first:
  "body i = Inr v \<Longrightarrow>
   multiscale_loop False body (i # ks) acc = Inr (Tensor (py_num (fst acc) + v), snd acc @ [v])"
  by (simp add: py_add_Tensor)

lemma multiscale_loop_all:
  "(\<And>i. i \<in> set ks \<Longrightarrow> body i = Inr (f i)) \<Longrightarrow>
   multiscale_loop True body ks acc =
     Inr (if ks = [] then fst acc else Tensor (py_num (fst acc) + sum_list (map f ks)),
          snd acc @ map f ks)"
proof (induction ks arbitrary: acc)
  case Nil
  then show ?case by simp
next
  case (Cons k ks)
  have k: "body k = Inr (f k)" using Cons.prems by simp
  have rest: "\<And>i. i \<in> set ks \<Longrightarrow> body i = Inr (f i)" using Cons.prems by simp
  show ?case
    using Cons.IH [OF rest, of "(py_add (fst acc) (Tensor (f k)), snd acc @ [f k])"]
    by (simp add: k py_add_Tensor add.assoc)
qed


lemma multiscale_loop_level0:
  assumes "0 < n" and "body 0 = Inr v"
  shows "multiscale_loop False body [0..<n] (PyInt 0, []) = Inr (Tensor v, [v])"
  using assms by (simp add: upt_conv_Cons py_add_Tensor)

lemma multiscale_loop_sum:
  assumes "\<And>i. i < n \<Longrightarrow> body i = Inr (f i)"
  shows "multiscale_loop True body [0..<n] (PyInt 0, []) =
           Inr (if n = 0 then PyInt 0 else Tensor (\<Sum>i<n. f i), map f [0..<n])"
proof -
  have "sum_list (map f [0..<n]) = (\<Sum>i<n. f i)"
    by (simp add: interv_sum_list_conv_sum_set_nat atLeast0LessThan)
  then show ?thesis
    using multiscale_loop_all [of "[0..<n]" body f "(PyInt 0, [])"] assms by simp
qed

text \<open>
  C4. For flow pyramids with at least one level, a loop whose multiscale flag is off
  returns the loss term of level 0 alone (as the total and as the only entry of the
  per-level list), which is also what it returns on the pyramids cut down to level 0:
  the result does not depend on the number of levels.
\<close>

theorem multiscale_false_level0:
  assumes "pred_fw \<noteq> []" and "pred_bw \<noteq> []"
  shows
    "(\<not> multiscale_census_loss cfg \<longrightarrow>
        census_loop X a cfg b pred_fw pred_bw =
          Inr (Tensor (ternary_loss X (im2 b) (im1 b) (scale (pred_fw ! 0) (div_flow a))
                     + ternary_loss X (im1 b) (im2 b) (scale (pred_bw ! 0) (div_flow a))),
               [ternary_loss X (im2 b) (im1 b) (scale (pred_fw ! 0) (div_flow a))
                     + ternary_loss X (im1 b) (im2 b) (scale (pred_bw ! 0) (div_flow a))])
        \<and> census_loop X a cfg b pred_fw pred_bw =
            census_loop X a cfg b [pred_fw ! 0] [pred_bw ! 0]) \<and>
     (\<not> multiscale_sl_loss cfg \<longrightarrow>
        sl_loop X a cfg pred_fw pred_bw =
          Inr (Tensor (smoothness_loss X (scale (pred_fw ! 0) (div_flow a)) cfg
                     + smoothness_loss X (scale (pred_bw ! 0) (div_flow a)) cfg),
               [smoothness_loss X (scale (pred_fw ! 0) (div_flow a)) cfg
                     + smoothness_loss X (scale (pred_bw ! 0) (div_flow a)) cfg])
        \<and> sl_loop X a cfg pred_fw pred_bw = sl_loop X a cfg [pred_fw ! 0] [pred_bw ! 0]) \<and>
     (\<not> multiscale_ssim_loss cfg \<longrightarrow>
        ssim_loop X a cfg b pred_bw =
          Inr (Tensor (ssim_fn X (im1 b) (im2 b) (scale (pred_bw ! 0) (div_flow a))),
               [ssim_fn X (im1 b) (im2 b) (scale (pred_bw ! 0) (div_flow a))])
        \<and> ssim_loop X a cfg b pred_bw = ssim_loop X a cfg b [pred_bw ! 0]) \<and>
     (\<not> multiscale_fb_loss cfg \<longrightarrow>
        fb_loop X a cfg b pred_fw pred_bw =
          Inr (Tensor (forward_backward_loss X (im1 b) (im2 b)
                        (scale (pred_fw ! 0) (div_flow a)) (scale (pred_bw ! 0) (div_flow a)) cfg),
               [forward_backward_loss X (im1 b) (im2 b)
                        (scale (pred_fw ! 0) (div_flow a)) (scale (pred_bw ! 0) (div_flow a)) cfg])
        \<and> fb_loop X a cfg b pred_fw pred_bw = fb_loop X a cfg b [pred_fw ! 0] [pred_bw ! 0])"
proof -
  have n: "0 < length pred_fw" "0 < length pred_bw" using assms by simp_all
  have c: "census_level X a b pred_fw pred_bw 0 =
             Inr (ternary_loss X (im2 b) (im1 b) (scale (pred_fw ! 0) (div_flow a))
                + ternary_loss X (im1 b) (im2 b) (scale (pred_bw ! 0) (div_flow a)))"
    and c1: "census_level X a b [pred_fw ! 0] [pred_bw ! 0] 0 =
             Inr (ternary_loss X (im2 b) (im1 b) (scale (pred_fw ! 0) (div_flow a))
                + ternary_loss X (im1 b) (im2 b) (scale (pred_bw ! 0) (div_flow a)))"
    using n by (simp_all add: census_level_def ebind_def get_def)
  have s: "sl_level X a cfg pred_fw pred_bw 0 =
             Inr (smoothness_loss X (scale (pred_fw ! 0) (div_flow a)) cfg
                + smoothness_loss X (scale (pred_bw ! 0) (div_flow a)) cfg)"
    and s1: "sl_level X a cfg [pred_fw ! 0] [pred_bw ! 0] 0 =
             Inr (smoothness_loss X (scale (pred_fw ! 0) (div_flow a)) cfg
                + smoothness_loss X (scale (pred_bw ! 0) (div_flow a)) cfg)"
    using n by (simp_all add: sl_level_def ebind_def get_def)
  have m: "ssim_level X a b pred_bw 0 =
             Inr (ssim_fn X (im1 b) (im2 b) (scale (pred_bw ! 0) (div_flow a)))"
    and m1: "ssim_level X a b [pred_bw ! 0] 0 =
             Inr (ssim_fn X (im1 b) (im2 b) (scale (pred_bw ! 0) (div_flow a)))"
    using n by (simp_all add: ssim_level_def ebind_def get_def)
  have f: "fb_level X a cfg b pred_fw pred_bw 0 =
             Inr (forward_backward_loss X (im1 b) (im2 b)
                    (scale (pred_fw ! 0) (div_flow a)) (scale (pred_bw ! 0) (div_flow a)) cfg)"
    and f1: "fb_level X a cfg b [pred_fw ! 0] [pred_bw ! 0] 0 =
             Inr (forward_backward_loss X (im1 b) (im2 b)
                    (scale (pred_fw ! 0) (div_flow a)) (scale (pred_bw ! 0) (div_flow a)) cfg)"
    using n by (simp_all add: fb_level_def ebind_def get_def)
  have one: "0 < length [x]" for x :: tensor by simp
  show ?thesis
    unfolding census_loop_def sl_loop_def ssim_loop_def fb_loop_def
    using multiscale_loop_level0 [of "length pred_fw" "census_level X a b pred_fw pred_bw", OF n(1) c]
      multiscale_loop_level0 [of "length [pred_fw ! 0]" "census_level X a b [pred_fw ! 0] [pred_bw ! 0]", OF one c1]
      multiscale_loop_level0 [of "length pred_fw" "sl_level X a cfg pred_fw pred_bw", OF n(1) s]
      multiscale_loop_level0 [of "length [pred_fw ! 0]" "sl_level X a cfg [pred_fw ! 0] [pred_bw ! 0]", OF one s1]
      multiscale_loop_level0 [of "length pred_bw" "ssim_level X a b pred_bw", OF n(2) m]
      multiscale_loop_level0 [of "length [pred_bw ! 0]" "ssim_level X a b [pred_bw ! 0]", OF one m1]
      multiscale_loop_level0 [of "length pred_bw" "fb_level X a cfg b pred_fw pred_bw", OF n(2) f]
      multiscale_loop_level0 [of "length [pred_bw ! 0]" "fb_level X a cfg b [pred_fw ! 0] [pred_bw ! 0]", OF one f1]
    by simp
qed

text \<open>
  C5. For a forward and a backward pyramid of the same length, a loop whose multiscale
  flag is on returns the sum over all levels of the loss term applied to the level's
  flows multiplied by \<open>div_flow\<close>, and the per-level list holds the value of each
  level's term, in order. The sum is over the set of levels, so the order of the
  additions does not matter.
\<close>

theorem multiscale_true_sum:
  assumes "length pred_fw = length pred_bw"
  shows
    "(multiscale_census_loss cfg \<longrightarrow>
        census_loop X a cfg b pred_fw pred_bw =
          Inr (if pred_fw = [] then PyInt 0
               else Tensor (\<Sum>i<length pred_fw.
                      ternary_loss X (im2 b) (im1 b) (scale (pred_fw ! i) (div_flow a))
                    + ternary_loss X (im1 b) (im2 b) (scale (pred_bw ! i) (div_flow a))),
               map (\<lambda>i. ternary_loss X (im2 b) (im1 b) (scale (pred_fw ! i) (div_flow a))
                    + ternary_loss X (im1 b) (im2 b) (scale (pred_bw ! i) (div_flow a)))
                 [0..<length pred_fw])) \<and>
     (multiscale_sl_loss cfg \<longrightarrow>
        sl_loop X a cfg pred_fw pred_bw =
          Inr (if pred_fw = [] then PyInt 0
               else Tensor (\<Sum>i<length pred_fw.
                      smoothness_loss X (scale (pred_fw ! i) (div_flow a)) cfg
                    + smoothness_loss X (scale (pred_bw ! i) (div_flow a)) cfg),
               map (\<lambda>i. smoothness_loss X (scale (pred_fw ! i) (div_flow a)) cfg
                    + smoothness_loss X (scale (pred_bw ! i) (div_flow a)) cfg)
                 [0..<length pred_fw])) \<and>
     (multiscale_ssim_loss cfg \<longrightarrow>
        ssim_loop X a cfg b pred_bw =
          Inr (if pred_bw = [] then PyInt 0
               else Tensor (\<Sum>i<length pred_bw.
                      ssim_fn X (im1 b) (im2 b) (scale (pred_bw ! i) (div_flow a))),
               map (\<lambda>i. ssim_fn X (im1 b) (im2 b) (scale (pred_bw ! i) (div_flow a)))
                 [0..<length pred_bw])) \<and>
     (multiscale_fb_loss cfg \<longrightarrow>
        fb_loop X a cfg b pred_fw pred_bw =
          Inr (if pred_bw = [] then PyInt 0
               else Tensor (\<Sum>i<length pred_bw.
                      forward_backward_loss X (im1 b) (im2 b)
                        (scale (pred_fw ! i) (div_flow a)) (scale (pred_bw ! i) (div_flow a)) cfg),
               map (\<lambda>i. forward_backward_loss X (im1 b) (im2 b)
                        (scale (pred_fw ! i) (div_flow a)) (scale (pred_bw ! i) (div_flow a)) cfg)
                 [0..<length pred_bw]))"
proof -
  have c: "census_level X a b pred_fw pred_bw i =
             Inr (ternary_loss X (im2 b) (im1 b) (scale (pred_fw ! i) (div_flow a))
                + ternary_loss X (im1 b) (im2 b) (scale (pred_bw ! i) (div_flow a)))"
    if "i < length pred_fw" for i
    using that assms by (simp add: census_level_def ebind_def get_def)
  have s: "sl_level X a cfg pred_fw pred_bw i =
             Inr (smoothness_loss X (scale (pred_fw ! i) (div_flow a)) cfg
                + smoothness_loss X (scale (pred_bw ! i) (div_flow a)) cfg)"
    if "i < length pred_fw" for i
    using that assms by (simp add: sl_level_def ebind_def get_def)
  have m: "ssim_level X a b pred_bw i =
             Inr (ssim_fn X (im1 b) (im2 b) (scale (pred_bw ! i) (div_flow a)))"
    if "i < length pred_bw" for i
    using that by (simp add: ssim_level_def ebind_def get_def)
  have f: "fb_level X a cfg b pred_fw pred_bw i =
             Inr (forward_backward_loss X (im1 b) (im2 b)
                    (scale (pred_fw ! i) (div_flow a)) (scale (pred_bw ! i) (div_flow a)) cfg)"
    if "i < length pred_bw" for i
    using that assms by (simp add: fb_level_def ebind_def get_def)
  show ?thesis
    unfolding census_loop_def sl_loop_def ssim_loop_def fb_loop_def
    using multiscale_loop_sum [of "length pred_fw" "census_level X a b pred_fw pred_bw", OF c]
      multiscale_loop_sum [of "length pred_fw" "sl_level X a cfg pred_fw pred_bw", OF s]
      multiscale_loop_sum [of "length pred_bw" "ssim_level X a b pred_bw", OF m]
      multiscale_loop_sum [of "length pred_bw" "fb_level X a cfg b pred_fw pred_bw", OF f]
    by simp
qed


theorem multiscale_false_level0_witness:
  "[[[1]], [[2]]] \<noteq> ([] :: tensor list) \<and> [[[3]], [[4]]] \<noteq> ([] :: tensor list) \<and>
   \<not> multiscale_census_loss (get_default_config\<lparr>multiscale_census_loss := False,
       multiscale_sl_loss := False, multiscale_ssim_loss := False, multiscale_fb_loss := False\<rparr>) \<and>
   census_loop toy_env default_args (get_default_config\<lparr>multiscale_census_loss := False,
       multiscale_sl_loss := False, multiscale_ssim_loss := False, multiscale_fb_loss := False\<rparr>)
     toy_batch [[[1]], [[2]]] [[[3]], [[4]]] = Inr (Tensor 80, [80]) \<and>
   sl_loop toy_env default_args (get_default_config\<lparr>multiscale_census_loss := False,
       multiscale_sl_loss := False, multiscale_ssim_loss := False, multiscale_fb_loss := False\<rparr>)
     [[[1]], [[2]]] [[[3]], [[4]]] = Inr (Tensor 2, [2]) \<and>
   ssim_loop toy_env default_args (get_default_config\<lparr>multiscale_census_loss := False,
       multiscale_sl_loss := False, multiscale_ssim_loss := False, multiscale_fb_loss := False\<rparr>)
     toy_batch [[[3]], [[4]]] = Inr (Tensor 2, [2]) \<and>
   fb_loop toy_env default_args (get_default_config\<lparr>multiscale_census_loss := False,
       multiscale_sl_loss := False, multiscale_ssim_loss := False, multiscale_fb_loss := False\<rparr>)
     toy_batch [[[1]], [[2]]] [[[3]], [[4]]] = Inr (Tensor 3, [3])"
  using multiscale_false_level0 [where pred_fw = "[[[1]], [[2]]]" and pred_bw = "[[[3]], [[4]]]"
      and X = toy_env and a = default_args and b = toy_batch
      and cfg = "get_default_config\<lparr>multiscale_census_loss := False,
       multiscale_sl_loss := False, multiscale_ssim_loss := False, multiscale_fb_loss := False\<rparr>"]
  by (simp add: toy_env_def default_args_def get_default_config_def toy_batch_def scale_def)

theorem multiscale_true_sum_witness:
  "length [[[1]], [[2 :: real]]] = length [[[3]], [[4 :: real]]] \<and>
   multiscale_census_loss get_default_config \<and>
   census_loop toy_env default_args get_default_config toy_batch [[[1]], [[2]]] [[[3]], [[4]]]
     = Inr (Tensor 200, [80, 120]) \<and>
   sl_loop toy_env default_args get_default_config [[[1]], [[2]]] [[[3]], [[4]]]
     = Inr (Tensor 4, [2, 2]) \<and>
   ssim_loop toy_env default_args get_default_config toy_batch [[[3]], [[4]]]
     = Inr (Tensor 4, [2, 2]) \<and>
   fb_loop toy_env default_args get_default_config toy_batch [[[1]], [[2]]] [[[3]], [[4]]]
     = Inr (Tensor 6, [3, 3])"
  using multiscale_true_sum [where pred_fw = "[[[1]], [[2]]]" and pred_bw = "[[[3]], [[4]]]"
      and X = toy_env and a = default_args and b = toy_batch and cfg = get_default_config]
  by (simp add: toy_env_def default_args_def get_default_config_def toy_batch_def scale_def
      upt_conv_Cons)

section \<open>Statements and the states they leave\<close>

lemma call_model_run:
  "call_model X x s =
     (Inr (model X (params s) x), s\<lparr>trace := trace s @ [Forward x (training s) (grad_enabled s)]\<rparr>)"
  by (simp add: call_model_def bnd_def reads_def emit_def modify_def)

lemma call_model_eval_run:
  "call_model_eval X x s =
     (Inr (model_eval X (params s) x),
      s\<lparr>trace := trace s @ [Forward x (training s) (grad_enabled s)]\<rparr>)"
  by (simp add: call_model_eval_def bnd_def reads_def emit_def modify_def)

lemma log_item_run:
  "log_item name v s =
     (case item v of
        Inl e \<Rightarrow> (Inl e, s)
      | Inr x \<Rightarrow> (Inr (), s\<lparr>trace := trace s @ [Scalar TrainWriter name x (n_iter s)]\<rparr>))"
  by (simp add: log_item_def bnd_def lift_def reads_def emit_def modify_def split: sum.splits)

lemma relates_ret: "reflp R \<Longrightarrow> relates R (ret x)"
  by (simp add: relates_def ret_def reflp_def)


lemma relates_lift: "reflp R \<Longrightarrow> relates R (lift r)"
  by (simp add: relates_def lift_def reflp_def)


lemma relates_modify: "(\<And>s. R s (f s)) \<Longrightarrow> relates R (modify f)"
  by (simp add: relates_def modify_def)


lemma relates_bnd:
  assumes "transp R" and m: "relates R m" and f: "\<And>x. relates R (f x)"
  shows "relates R (bnd m f)"
proof -
  have "R s (snd (bnd m f s))" for s
  proof (cases "m s")
    case (Pair r s')
    have 1: "R s s'" using m Pair by (metis relates_def snd_conv)
    show ?thesis
    proof (cases r)
      case (Inl e)
      then show ?thesis using 1 Pair by (simp add: bnd_def)
    next
      case (Inr x)
      have "R s' (snd (f x s'))" using f by (simp add: relates_def)
      then have "R s (snd (f x s'))" using 1 \<open>transp R\<close> by (meson transpD)
      then show ?thesis using Pair Inr by (simp add: bnd_def)
    qed
  qed
  then show ?thesis by (simp add: relates_def)
qed

lemma relates_call_model:
  "(\<And>s x t g. R s (s\<lparr>trace := trace s @ [Forward x t g]\<rparr>)) \<Longrightarrow> relates R (call_model X x)"
  by (simp add: relates_def call_model_run)

lemma relates_call_model_eval:
  "(\<And>s x t g. R s (s\<lparr>trace := trace s @ [Forward x t g]\<rparr>)) \<Longrightarrow>
   relates R (call_model_eval X x)"
  by (simp add: relates_def call_model_eval_run)

lemma relates_log_item:
  "reflp R \<Longrightarrow> (\<And>s n x k. R s (s\<lparr>trace := trace s @ [Scalar TrainWriter n x k]\<rparr>)) \<Longrightarrow>
   relates R (log_item name v)"
  by (simp add: relates_def log_item_run reflp_def split: sum.splits)

lemma relates_step_count:
  assumes "reflp R"
    and "\<And>s p ob v. R s (s\<lparr>params := p, opt := Some ob, trace := trace s @ [OptimStep v],
                            n_iter := n_iter s + 1\<rparr>)"
  shows "relates R (bnd (optimize X lv) (\<lambda>_. bnd count_iteration (\<lambda>_. ret r)))"
  using assms
  by (simp add: relates_def bnd_def optimize_def count_iteration_def modify_def ret_def reflp_def
      split: option.splits prod.splits)

lemma quiet_effectsD:
  assumes "quiet_effects R"
  shows "reflp R" and "transp R"
    and "\<And>s x t g. R s (s\<lparr>trace := trace s @ [Forward x t g]\<rparr>)"
    and "\<And>s n x k. R s (s\<lparr>trace := trace s @ [Scalar TrainWriter n x k]\<rparr>)"
  using assms by (simp_all add: quiet_effects_def)


lemma relates_unflow_loss:
  assumes R: "reflp R" "transp R"
    and sc: "\<And>s n x k. R s (s\<lparr>trace := trace s @ [Scalar TrainWriter n x k]\<rparr>)"
  shows "relates R (unflow_loss X a cfg b pred_fw pred_bw)"
proof -
  have t: "relates R (bnd (lift r) (\<lambda>r. bnd (log_item name (fst r)) (\<lambda>_. ret (fst r))))"
    for r :: "error + pyval \<times> real list" and name
    using R sc by (intro relates_bnd relates_lift relates_log_item relates_ret)
  have "relates R (census_term X a cfg b pred_fw pred_bw)"
    and "relates R (sl_term X a cfg pred_fw pred_bw)"
    and "relates R (ssim_term X a cfg b pred_bw)"
    and "relates R (fb_term X a cfg b pred_fw pred_bw)"
    by (simp_all add: census_term_def sl_term_def ssim_term_def fb_term_def
        t relates_ret [OF R(1)])
  then show ?thesis
    unfolding unflow_loss_def using R by (intro relates_bnd relates_ret)
qed

lemma relates_unflow_body:
  assumes R: "reflp R" "transp R"
    and sc: "\<And>s n x k. R s (s\<lparr>trace := trace s @ [Scalar TrainWriter n x k]\<rparr>)"
    and st: "\<And>s p ob v. R s (s\<lparr>params := p, opt := Some ob, trace := trace s @ [OptimStep v],
                            n_iter := n_iter s + 1\<rparr>)"
  shows "relates R (unflow_body X a cfg b ms pred_fw pred_bw)"
  unfolding unflow_body_def
  using R sc st relates_unflow_loss [OF R sc]
  by (intro relates_bnd relates_ret relates_lift relates_log_item relates_step_count)






lemma relates_validate_loop:
  assumes R: "quiet_effects R"
  shows "relates R (validate_loop X a bs m)"
proof -
  note R = quiet_effectsD [OF assms]
  have step: "relates R (validate_batch X a b m)" for b m
    unfolding validate_batch_def using R
    by (intro relates_bnd relates_call_model_eval relates_lift)
  have "R s (snd (validate_loop X a bs m s))" for s
  proof (induction bs arbitrary: m s)
    case Nil
    then show ?case using R(1) by (simp add: reflp_def)
  next
    case (Cons b bs)
    obtain r s' where run: "validate_batch X a b m s = (r, s')"
      by (cases "validate_batch X a b m s")
    have 1: "R s s'" using step run by (metis relates_def snd_conv)
    show ?case
    proof (cases r)
      case (Inl e)
      then show ?thesis using 1 run by simp
    next
      case (Inr m')
      have "R s' (snd (validate_loop X a bs m' s'))" by (rule Cons.IH)
      then have "R s (snd (validate_loop X a bs m' s'))" using 1 R(2) by (meson transpD)
      then show ?thesis using run Inr by simp
    qed
  qed
  then show ?thesis by (simp add: relates_def)
qed

lemma relates_validate:
  assumes "quiet_effects R" and "\<And>s t. R s (s\<lparr>training := t\<rparr>)"
  shows "relates R (validate X a bs epoch)"
  unfolding validate_def
  using quiet_effectsD [OF assms(1)] assms(2) relates_validate_loop [OF assms(1)]
  by (intro relates_bnd relates_modify relates_ret)











section \<open>The iteration counter\<close>

lemma reflp_same: "reflp (same v)"
  by (simp add: reflp_def same_def)

lemma transp_same: "transp (same v)"
  by (simp add: transp_def same_def)

lemma quiet_same_n_iter: "quiet_effects (same n_iter)"
  by (simp add: quiet_effects_def reflp_same transp_same) (simp add: same_def)



lemma counts_one_tail:
  "counts_one (bnd (optimize X lv) (\<lambda>_. bnd count_iteration (\<lambda>_. ret r)))"
  by (simp add: counts_one_def bnd_def optimize_def count_iteration_def modify_def ret_def
      split: option.splits prod.splits)

lemma counts_one_bnd:
  assumes m: "relates (same n_iter) m" and f: "\<And>x. counts_one (f x)"
  shows "counts_one (bnd m f)"
proof -
  have "n_iter (snd (bnd m f s)) =
          n_iter s + (case fst (bnd m f s) of Inl e \<Rightarrow> 0 | Inr r \<Rightarrow> 1)" for s
  proof (cases "m s")
    case (Pair r s')
    have 1: "n_iter s' = n_iter s" using m Pair by (metis relates_def same_def snd_conv)
    show ?thesis
    proof (cases r)
      case (Inl e)
      then show ?thesis using 1 Pair by (simp add: bnd_def)
    next
      case (Inr x)
      then show ?thesis using 1 Pair f [of x] by (simp add: bnd_def counts_one_def)
    qed
  qed
  then show ?thesis by (simp add: counts_one_def)
qed

lemma counts_one_unflow_batch: "counts_one (unflow_batch X a cfg b ms)"
proof -
  note Q = quiet_effectsD [OF quiet_same_n_iter]
  have l: "relates (same n_iter) (unflow_loss X a cfg b pred_fw pred_bw)" for pred_fw pred_bw
    using Q(1,2,4) by (rule relates_unflow_loss)
  have d: "relates (same n_iter) (predict_bidirectional X b)"
    unfolding predict_bidirectional_def
    using Q by (intro relates_bnd relates_call_model relates_ret)
  have "counts_one (unflow_body X a cfg b ms pred_fw pred_bw)" for pred_fw pred_bw
    unfolding unflow_body_def
    using Q l
    by (intro counts_one_tail counts_one_bnd relates_lift relates_log_item)
  then show ?thesis
    unfolding unflow_batch_def using d by (intro counts_one_bnd)
qed

lemma counts_one_legacy_batch: "counts_one (legacy_batch X a b ms)"
proof -
  note Q = quiet_effectsD [OF quiet_same_n_iter]
  show ?thesis
    unfolding legacy_batch_def
    using Q
    by (intro counts_one_tail counts_one_bnd relates_lift relates_log_item relates_call_model)
      (simp_all add: relates_ret relates_lift)
qed

lemma counts_one_selfsup_batch: "counts_one (selfsup_batch X a cfg b ms)"
proof -
  note Q = quiet_effectsD [OF quiet_same_n_iter]
  show ?thesis
    unfolding selfsup_batch_def
    using Q
    by (intro counts_one_tail counts_one_bnd relates_lift relates_log_item relates_call_model)
qed


section \<open>A batch of the unflow variant\<close>

lemma bnd_Inr_iff:
  "bnd m f s = (Inr y, s'') \<longleftrightarrow> (\<exists>x s'. m s = (Inr x, s') \<and> f x s' = (Inr y, s''))"
  by (cases "m s") (auto simp: bnd_def split: sum.splits)

lemma lift_Inr_iff: "lift r s = (Inr x, s') \<longleftrightarrow> r = Inr x \<and> s' = s"
  by (auto simp: lift_def)

lemma ret_Inr_iff: "ret x s = (Inr y, s') \<longleftrightarrow> y = x \<and> s' = s"
  by (auto simp: ret_def)

lemma py_num_py_mul: "py_num (py_mul x y) = py_num x * py_num y"
  by (cases x; cases y) simp_all

lemma item_Inr: "item v = Inr x \<Longrightarrow> v = Tensor x"
  by (cases v) simp_all

lemma predict_bidirectional_run:
  "predict_bidirectional X b s =
     (Inr (model X (params s) (cat [im1 b, im2 b]), model X (params s) (cat [im2 b, im1 b])),
      s\<lparr>trace := trace s @
          [Forward (cat [im1 b, im2 b]) (training s) (grad_enabled s),
           Forward (cat [im2 b, im1 b]) (training s) (grad_enabled s)]\<rparr>)"
  by (simp add: predict_bidirectional_def bnd_def call_model_run ret_def)

lemma unflow_batch_run:
  "unflow_batch X a cfg b ms s =
     unflow_body X a cfg b ms
       (model X (params s) (cat [im1 b, im2 b])) (model X (params s) (cat [im2 b, im1 b]))
       (s\<lparr>trace := trace s @
          [Forward (cat [im1 b, im2 b]) (training s) (grad_enabled s),
           Forward (cat [im2 b, im1 b]) (training s) (grad_enabled s)]\<rparr>)"
  by (simp add: unflow_batch_def bnd_def predict_bidirectional_run)

lemma term_Inr:
  assumes "(if flag then bnd (lift r) (\<lambda>r. bnd (log_item name (fst r)) (\<lambda>_. ret (fst r)))
            else ret (PyInt 0)) s = (Inr c, s')"
  shows "if flag then \<exists>l. r = Inr (c, l) else c = PyInt 0"
proof (cases flag)
  case True
  then obtain x where "r = Inr x" and "c = fst x"
    using assms by (auto simp: bnd_Inr_iff lift_Inr_iff ret_Inr_iff)
  then show ?thesis using True by (cases x) auto
next
  case False
  then show ?thesis using assms by (simp add: ret_Inr_iff)
qed

lemma unflow_loss_Inr:
  assumes "unflow_loss X a cfg b pred_fw pred_bw s = (Inr loss, s')"
  shows "\<exists>census_loss sl_loss ssim_loss fb_loss.
     (if census cfg then \<exists>l. census_loop X a cfg b pred_fw pred_bw = Inr (census_loss, l)
      else census_loss = PyInt 0) \<and>
     (if sl cfg then \<exists>l. sl_loop X a cfg pred_fw pred_bw = Inr (sl_loss, l)
      else sl_loss = PyInt 0) \<and>
     (if ssim cfg then \<exists>l. ssim_loop X a cfg b pred_bw = Inr (ssim_loss, l)
      else ssim_loss = PyInt 0) \<and>
     (if fb cfg then \<exists>l. fb_loop X a cfg b pred_fw pred_bw = Inr (fb_loss, l)
      else fb_loss = PyInt 0) \<and>
     loss = py_add (py_add (py_add census_loss sl_loss) ssim_loss)
              (py_mul (PyFloat 0.001) fb_loss)"
proof -
  from assms obtain c s1 sm s2 ss s3 f s4 where
    c: "census_term X a cfg b pred_fw pred_bw s = (Inr c, s1)" and
    sm: "sl_term X a cfg pred_fw pred_bw s1 = (Inr sm, s2)" and
    ss: "ssim_term X a cfg b pred_bw s2 = (Inr ss, s3)" and
    f: "fb_term X a cfg b pred_fw pred_bw s3 = (Inr f, s4)" and
    l: "loss = py_add (py_add (py_add c sm) ss) (py_mul (PyFloat 0.001) f)"
    unfolding unflow_loss_def by (auto simp: bnd_Inr_iff ret_Inr_iff)
  show ?thesis
    using term_Inr [OF c [unfolded census_term_def]] term_Inr [OF sm [unfolded sl_term_def]]
      term_Inr [OF ss [unfolded ssim_term_def]] term_Inr [OF f [unfolded fb_term_def]] l
    by blast
qed

lemma optimize_Inr:
  "optimize X lv s = (Inr u, s') \<Longrightarrow> trace s' = trace s @ [OptimStep lv]"
  by (auto simp: optimize_def split: option.splits prod.splits)

lemma unflow_body_Inr:
  assumes "unflow_body X a cfg b ms pred_fw pred_bw s = (Inr ms', s')"
  shows "\<exists>loss lv s1 flow.
     unflow_loss X a cfg b pred_fw pred_bw s = (Inr loss, s1) \<and> loss = Tensor lv \<and>
     get pred_bw 0 = Inr flow \<and>
     update lv (bsize b) (fst ms) = Inr (fst ms') \<and>
     update (div_flow a * realEPE X flow (target b) (sparse a)) (bsize b) (snd ms) = Inr (snd ms') \<and>
     last (trace s') = OptimStep lv"
proof -
  from assms obtain loss s1 flow lv losses s2 epes s3 s4 where
    1: "unflow_loss X a cfg b pred_fw pred_bw s = (Inr loss, s1)" and
    2: "get pred_bw 0 = Inr flow" and 3: "item loss = Inr lv" and
    4: "update lv (bsize b) (fst ms) = Inr losses" and
    5: "update (div_flow a * realEPE X flow (target b) (sparse a)) (bsize b) (snd ms) = Inr epes" and
    6: "optimize X lv s2 = (Inr (), s3)" and 7: "count_iteration s3 = (Inr (), s4)" and
    8: "ms' = (losses, epes)" and 9: "s' = s4"
    unfolding unflow_body_def by (auto simp: bnd_Inr_iff ret_Inr_iff lift_Inr_iff)
  have "trace s4 = trace s3" using 7 by (auto simp: count_iteration_def modify_def)
  then have "last (trace s') = OptimStep lv" using optimize_Inr [OF 6] 9 by simp
  then show ?thesis using 1 2 item_Inr [OF 3] 4 5 8 by auto
qed

text \<open>
  C1. When a batch of the unflow variant completes, the loss of line 398 is
  \<open>census_loss + sl_loss + ssim_loss + 0.001 * fb_loss\<close>, where a term whose flag is
  set is the total that its multi-scale loop computed on the two predictions and a term
  whose flag is not set is the integer 0 (it stays in the sum); the optimization step,
  the last event of the batch, is taken on the value of that sum.
\<close>

theorem unflow_loss_is_sum:
  assumes "unflow_batch X a cfg b ms s = (Inr ms', s')"
    and "pred_fw = model X (params s) (cat [im1 b, im2 b])"
    and "pred_bw = model X (params s) (cat [im2 b, im1 b])"
  shows "\<exists>census_loss sl_loss ssim_loss fb_loss.
     (if census cfg then \<exists>l. census_loop X a cfg b pred_fw pred_bw = Inr (census_loss, l)
      else census_loss = PyInt 0) \<and>
     (if sl cfg then \<exists>l. sl_loop X a cfg pred_fw pred_bw = Inr (sl_loss, l)
      else sl_loss = PyInt 0) \<and>
     (if ssim cfg then \<exists>l. ssim_loop X a cfg b pred_bw = Inr (ssim_loss, l)
      else ssim_loss = PyInt 0) \<and>
     (if fb cfg then \<exists>l. fb_loop X a cfg b pred_fw pred_bw = Inr (fb_loss, l)
      else fb_loss = PyInt 0) \<and>
     fst (unflow_loss X a cfg b pred_fw pred_bw (snd (predict_bidirectional X b s))) =
       Inr (py_add (py_add (py_add census_loss sl_loss) ssim_loss)
              (py_mul (PyFloat 0.001) fb_loss)) \<and>
     last (trace s') =
       OptimStep (py_num census_loss + py_num sl_loss + py_num ssim_loss
                  + 0.001 * py_num fb_loss)"
proof -
  define s0 where "s0 = snd (predict_bidirectional X b s)"
  have run: "unflow_body X a cfg b ms pred_fw pred_bw s0 = (Inr ms', s')"
    using assms by (simp add: unflow_batch_run s0_def predict_bidirectional_run)
  from unflow_body_Inr [OF run] obtain loss lv s1 where
    l: "unflow_loss X a cfg b pred_fw pred_bw s0 = (Inr loss, s1)" and
    t: "loss = Tensor lv" and o: "last (trace s') = OptimStep lv"
    by blast
  from unflow_loss_Inr [OF l] obtain c sm ss f where
    c: "if census cfg then \<exists>l. census_loop X a cfg b pred_fw pred_bw = Inr (c, l)
        else c = PyInt 0" and
    sm: "if sl cfg then \<exists>l. sl_loop X a cfg pred_fw pred_bw = Inr (sm, l) else sm = PyInt 0" and
    ss: "if ssim cfg then \<exists>l. ssim_loop X a cfg b pred_bw = Inr (ss, l) else ss = PyInt 0" and
    f: "if fb cfg then \<exists>l. fb_loop X a cfg b pred_fw pred_bw = Inr (f, l) else f = PyInt 0" and
    e: "loss = py_add (py_add (py_add c sm) ss) (py_mul (PyFloat 0.001) f)"
    by blast
  have "lv = py_num loss" using t by simp
  also have "\<dots> = py_num c + py_num sm + py_num ss + 0.001 * py_num f"
    by (simp add: e py_num_py_add py_num_py_mul)
  finally have v: "last (trace s') =
      OptimStep (py_num c + py_num sm + py_num ss + 0.001 * py_num f)"
    using o by simp
  have "fst (unflow_loss X a cfg b pred_fw pred_bw s0) =
      Inr (py_add (py_add (py_add c sm) ss) (py_mul (PyFloat 0.001) f))"
    using l e by simp
  then show ?thesis using c sm ss f v unfolding s0_def by blast
qed

text \<open>
  C6. The two forward passes of a batch of the unflow variant return
  \<open>pred_fw = model (cat [im1, im2])\<close> and \<open>pred_bw = model (cat [im2, im1])\<close>, and the
  whole batch, whether it completes or raises, adds exactly these two forward passes to
  the trace, in this order: the model is invoked twice per batch.
\<close>

theorem bidirectional_two_passes:
  "predict_bidirectional X b s =
     (Inr (model X (params s) (cat [im1 b, im2 b]), model X (params s) (cat [im2 b, im1 b])),
      s\<lparr>trace := trace s @
          [Forward (cat [im1 b, im2 b]) (training s) (grad_enabled s),
           Forward (cat [im2 b, im1 b]) (training s) (grad_enabled s)]\<rparr>) \<and>
   filter is_forward (trace (snd (unflow_batch X a cfg b ms s))) =
     filter is_forward (trace s) @
       [Forward (cat [im1 b, im2 b]) (training s) (grad_enabled s),
        Forward (cat [im2 b, im1 b]) (training s) (grad_enabled s)]"
proof -
  have "relates (same (\<lambda>s. filter is_forward (trace s)))
          (unflow_body X a cfg b ms pred_fw pred_bw)" for pred_fw pred_bw
    by (rule relates_unflow_body) (simp_all add: reflp_same transp_same, simp_all add: same_def)
  then have "filter is_forward (trace (snd (unflow_body X a cfg b ms pred_fw pred_bw s0))) =
      filter is_forward (trace s0)" for pred_fw pred_bw s0
    by (simp add: relates_def same_def)
  then show ?thesis
    by (simp add: predict_bidirectional_run unflow_batch_run)
qed


theorem unflow_loss_is_sum_witness:
  "unflow_batch toy_env default_args get_default_config toy_batch (AverageMeter, AverageMeter)
     ((init_state 1)\<lparr>opt := Some 0\<rparr>) =
     (Inr (\<lparr>msum = 124, mcount = 1, avg = 124\<rparr>, \<lparr>msum = 20, mcount = 1, avg = 20\<rparr>),
      \<lparr>params = 2, opt = Some 1, training = True, grad_enabled = True, n_iter = 1,
       best_EPE = - 1,
       trace = [Forward [[1], [2]] True True, Forward [[2], [1]] True True,
                Scalar TrainWriter ''train_loss_census'' 120 0,
                Scalar TrainWriter ''train_loss_sl'' 4 0,
                Scalar TrainWriter ''train_loss'' 124 0, OptimStep 124]\<rparr>) \<and>
   census_loop toy_env default_args get_default_config toy_batch [[[1]], [[2]]] [[[1]], [[2]]] =
     Inr (Tensor 120, [40, 80]) \<and>
   sl_loop toy_env default_args get_default_config [[[1]], [[2]]] [[[1]], [[2]]] =
     Inr (Tensor 4, [2, 2]) \<and>
   \<not> ssim get_default_config \<and> \<not> fb get_default_config \<and>
   (124 :: real) = 120 + 4 + 0 + 0.001 * 0"
proof -
  have h: "unflow_batch toy_env default_args get_default_config toy_batch
     (AverageMeter, AverageMeter) ((init_state 1)\<lparr>opt := Some 0\<rparr>) =
     (Inr (\<lparr>msum = 124, mcount = 1, avg = 124\<rparr>, \<lparr>msum = 20, mcount = 1, avg = 20\<rparr>),
      \<lparr>params = 2, opt = Some 1, training = True, grad_enabled = True, n_iter = 1,
       best_EPE = - 1,
       trace = [Forward [[1], [2]] True True, Forward [[2], [1]] True True,
                Scalar TrainWriter ''train_loss_census'' 120 0,
                Scalar TrainWriter ''train_loss_sl'' 4 0,
                Scalar TrainWriter ''train_loss'' 124 0, OptimStep 124]\<rparr>)"
    by (simp add: unflow_batch_run unflow_body_def unflow_loss_def census_term_def sl_term_def
        ssim_term_def fb_term_def census_loop_def sl_loop_def census_level_def sl_level_def
        ebind_def get_def scale_def cat_def log_item_run bnd_def lift_def ret_def update_def
        AverageMeter_def optimize_def count_iteration_def modify_def init_state_def
        toy_env_def toy_batch_def default_args_def get_default_config_def upt_conv_Cons)
  show ?thesis
    using unflow_loss_is_sum [OF h refl refl] h
    by (simp add: census_loop_def sl_loop_def census_level_def sl_level_def
        ebind_def get_def scale_def toy_env_def toy_batch_def default_args_def
        get_default_config_def upt_conv_Cons)
qed

lemma unflow_loss_ignores_target:
  "unflow_loss (X\<lparr>realEPE := r\<rparr>) a cfg (b\<lparr>target := t\<rparr>) pred_fw pred_bw =
   unflow_loss X a cfg b pred_fw pred_bw"
proof -
  have "census_level (X\<lparr>realEPE := r\<rparr>) a (b\<lparr>target := t\<rparr>) pred_fw pred_bw =
          census_level X a b pred_fw pred_bw"
    and "sl_level (X\<lparr>realEPE := r\<rparr>) a cfg pred_fw pred_bw = sl_level X a cfg pred_fw pred_bw"
    and "ssim_level (X\<lparr>realEPE := r\<rparr>) a (b\<lparr>target := t\<rparr>) pred_bw = ssim_level X a b pred_bw"
    and "fb_level (X\<lparr>realEPE := r\<rparr>) a cfg (b\<lparr>target := t\<rparr>) pred_fw pred_bw =
          fb_level X a cfg b pred_fw pred_bw"
    by (simp_all add: census_level_def sl_level_def ssim_level_def fb_level_def fun_eq_iff)
  then show ?thesis
    by (simp add: unflow_loss_def census_term_def sl_term_def ssim_term_def fb_term_def
        census_loop_def sl_loop_def ssim_loop_def fb_loop_def)
qed

text \<open>
  C7. When a batch of the unflow variant completes, the value recorded in the meter
  \<^verbatim>\<open>flow2_EPEs\<close> is \<open>div_flow\<close> times \<open>realEPE\<close> of \<open>pred_bw[0]\<close> against the target;
  and the same batch run with any other target \<open>t\<close> and any other error function \<open>r\<close>
  leaves the same state (parameters, optimizer, trace with the optimized loss) and the
  same loss meter: the diagnostic is no part of what is optimized.
\<close>

theorem epe_is_diagnostic_only:
  assumes "unflow_batch X a cfg b ms s = (Inr ms', s')"
  shows "update (div_flow a * realEPE X (model X (params s) (cat [im2 b, im1 b]) ! 0)
                  (target b) (sparse a)) (bsize b) (snd ms) = Inr (snd ms') \<and>
    (\<exists>m. update (div_flow a * r (model X (params s) (cat [im2 b, im1 b]) ! 0) t (sparse a))
            (bsize b) (snd ms) = Inr m \<and>
         unflow_batch (X\<lparr>realEPE := r\<rparr>) a cfg (b\<lparr>target := t\<rparr>) ms s = (Inr (fst ms', m), s'))"
proof -
  define pred_fw where "pred_fw = model X (params s) (cat [im1 b, im2 b])"
  define pred_bw where "pred_bw = model X (params s) (cat [im2 b, im1 b])"
  define s0 where "s0 = s\<lparr>trace := trace s @
          [Forward (cat [im1 b, im2 b]) (training s) (grad_enabled s),
           Forward (cat [im2 b, im1 b]) (training s) (grad_enabled s)]\<rparr>"
  have run: "unflow_body X a cfg b ms pred_fw pred_bw s0 = (Inr ms', s')"
    using assms by (simp add: unflow_batch_run s0_def pred_fw_def pred_bw_def)
  then obtain loss s1 flow lv losses s2 epes s3 s4 where
    1: "unflow_loss X a cfg b pred_fw pred_bw s0 = (Inr loss, s1)" and
    2: "get pred_bw 0 = Inr flow" and 3: "item loss = Inr lv" and
    4: "update lv (bsize b) (fst ms) = Inr losses" and
    l: "log_item ''train_loss'' loss s1 = (Inr (), s2)" and
    5: "update (div_flow a * realEPE X flow (target b) (sparse a)) (bsize b) (snd ms) = Inr epes" and
    6: "optimize X lv s2 = (Inr (), s3)" and 7: "count_iteration s3 = (Inr (), s4)" and
    8: "ms' = (losses, epes)" and 9: "s' = s4"
    unfolding unflow_body_def by (auto simp: bnd_Inr_iff ret_Inr_iff lift_Inr_iff)
  have flow: "flow = pred_bw ! 0" using 2 by (auto simp: get_def split: if_splits)
  have n: "mcount (snd ms) + bsize b \<noteq> 0" using 5 by (auto simp: update_def split: if_splits)
  define m where "m = \<lparr>msum = msum (snd ms) + div_flow a * r flow t (sparse a) * real (bsize b),
      mcount = mcount (snd ms) + bsize b,
      avg = (msum (snd ms) + div_flow a * r flow t (sparse a) * real (bsize b))
            / real (mcount (snd ms) + bsize b)\<rparr>"
  have u: "update (div_flow a * r flow t (sparse a)) (bsize b) (snd ms) = Inr m"
    using n by (simp add: update_def m_def)
  have o: "optimize (X\<lparr>realEPE := r\<rparr>) lv = optimize X lv"
    by (auto simp: optimize_def fun_eq_iff split: option.splits)
  have "unflow_body (X\<lparr>realEPE := r\<rparr>) a cfg (b\<lparr>target := t\<rparr>) ms pred_fw pred_bw s0 =
          (Inr (losses, m), s4)"
    by (simp add: unflow_body_def unflow_loss_ignores_target bnd_def lift_def ret_def
        1 2 3 4 l u o 6 7)
  then have "unflow_batch (X\<lparr>realEPE := r\<rparr>) a cfg (b\<lparr>target := t\<rparr>) ms s = (Inr (fst ms', m), s')"
    by (simp add: unflow_batch_run s0_def pred_fw_def pred_bw_def 8 9)
  then show ?thesis using 5 8 u flow by (auto simp: pred_bw_def)
qed

theorem epe_is_diagnostic_only_witness:
  "unflow_batch toy_env default_args get_default_config toy_batch (AverageMeter, AverageMeter)
     ((init_state 1)\<lparr>opt := Some 0\<rparr>) =
     (Inr (\<lparr>msum = 124, mcount = 1, avg = 124\<rparr>, \<lparr>msum = 20, mcount = 1, avg = 20\<rparr>),
      \<lparr>params = 2, opt = Some 1, training = True, grad_enabled = True, n_iter = 1,
       best_EPE = - 1,
       trace = [Forward [[1], [2]] True True, Forward [[2], [1]] True True,
                Scalar TrainWriter ''train_loss_census'' 120 0,
                Scalar TrainWriter ''train_loss_sl'' 4 0,
                Scalar TrainWriter ''train_loss'' 124 0, OptimStep 124]\<rparr>) \<and>
   update (20 * 1) 1 AverageMeter = Inr \<lparr>msum = 20, mcount = 1, avg = 20\<rparr> \<and>
   unflow_batch (toy_env\<lparr>realEPE := (\<lambda>out tg sp. 7)\<rparr>) default_args get_default_config
     (toy_batch\<lparr>target := [[5]]\<rparr>) (AverageMeter, AverageMeter) ((init_state 1)\<lparr>opt := Some 0\<rparr>) =
     (Inr (\<lparr>msum = 124, mcount = 1, avg = 124\<rparr>, \<lparr>msum = 140, mcount = 1, avg = 140\<rparr>),
      \<lparr>params = 2, opt = Some 1, training = True, grad_enabled = True, n_iter = 1,
       best_EPE = - 1,
       trace = [Forward [[1], [2]] True True, Forward [[2], [1]] True True,
                Scalar TrainWriter ''train_loss_census'' 120 0,
                Scalar TrainWriter ''train_loss_sl'' 4 0,
                Scalar TrainWriter ''train_loss'' 124 0, OptimStep 124]\<rparr>)"
proof -
  have h: "unflow_batch toy_env default_args get_default_config toy_batch
     (AverageMeter, AverageMeter) ((init_state 1)\<lparr>opt := Some 0\<rparr>) =
     (Inr (\<lparr>msum = 124, mcount = 1, avg = 124\<rparr>, \<lparr>msum = 20, mcount = 1, avg = 20\<rparr>),
      \<lparr>params = 2, opt = Some 1, training = True, grad_enabled = True, n_iter = 1,
       best_EPE = - 1,
       trace = [Forward [[1], [2]] True True, Forward [[2], [1]] True True,
                Scalar TrainWriter ''train_loss_census'' 120 0,
                Scalar TrainWriter ''train_loss_sl'' 4 0,
                Scalar TrainWriter ''train_loss'' 124 0, OptimStep 124]\<rparr>)"
    by (simp add: unflow_batch_run unflow_body_def unflow_loss_def census_term_def sl_term_def
        ssim_term_def fb_term_def census_loop_def sl_loop_def census_level_def sl_level_def
        ebind_def get_def scale_def cat_def log_item_run bnd_def lift_def ret_def update_def
        AverageMeter_def optimize_def count_iteration_def modify_def init_state_def
        toy_env_def toy_batch_def default_args_def get_default_config_def upt_conv_Cons)
  have h2: "unflow_batch (toy_env\<lparr>realEPE := (\<lambda>out tg sp. 7)\<rparr>) default_args
     get_default_config (toy_batch\<lparr>target := [[5]]\<rparr>) (AverageMeter, AverageMeter)
     ((init_state 1)\<lparr>opt := Some 0\<rparr>) =
     (Inr (\<lparr>msum = 124, mcount = 1, avg = 124\<rparr>, \<lparr>msum = 140, mcount = 1, avg = 140\<rparr>),
      \<lparr>params = 2, opt = Some 1, training = True, grad_enabled = True, n_iter = 1,
       best_EPE = - 1,
       trace = [Forward [[1], [2]] True True, Forward [[2], [1]] True True,
                Scalar TrainWriter ''train_loss_census'' 120 0,
                Scalar TrainWriter ''train_loss_sl'' 4 0,
                Scalar TrainWriter ''train_loss'' 124 0, OptimStep 124]\<rparr>)"
    by (simp add: unflow_batch_run unflow_body_def unflow_loss_def census_term_def sl_term_def
        ssim_term_def fb_term_def census_loop_def sl_loop_def census_level_def sl_level_def
        ebind_def get_def scale_def cat_def log_item_run bnd_def lift_def ret_def update_def
        AverageMeter_def optimize_def count_iteration_def modify_def init_state_def
        toy_env_def toy_batch_def default_args_def get_default_config_def upt_conv_Cons)
  show ?thesis
    using epe_is_diagnostic_only [OF h, of "\<lambda>out tg sp. 7" "[[5]]"] h h2
    by (simp add: update_def AverageMeter_def)
qed

section \<open>The solver\<close>

text \<open>
  C9. A solver name outside \<open>{adam, sgd}\<close> is rejected before any training iteration:
  the script exits in \<^verbatim>\<open>parse_args\<close> with the initial state untouched, and
  \<^verbatim>\<open>main\<close> on such arguments raises at its assertion with the state unchanged (no
  forward pass, no optimization step). For a valid name the optimizer of that name is
  constructed and bound first, and the validation pass or the epoch loop starts from the
  state that holds it.
\<close>

theorem solver_checked_before_training:
  "(solver a \<notin> set [''adam'', ''sgd''] \<longrightarrow>
      script X a cfg train_loader val_loader p0 = (Inl SystemExit, init_state p0) \<and>
      main X a cfg train_loader val_loader s = (Inl AssertionError, s)) \<and>
   (solver a \<in> set [''adam'', ''sgd''] \<longrightarrow>
      make_optimizer X a s =
        (Inr (), s\<lparr>opt := Some (if solver a = ''adam''
                     then adam X (params s) (bias_decay a) (weight_decay a) (lr a)
                            (momentum a, beta a)
                     else sgd X (params s) (bias_decay a) (weight_decay a) (lr a)
                            (momentum a))\<rparr>) \<and>
      main X a cfg train_loader val_loader s =
        (if evaluate a then
           bnd (validate X a val_loader 0) (\<lambda>EPE.
           bnd (modify (\<lambda>s. s\<lparr>best_EPE := EPE\<rparr>)) (\<lambda>_. ret None))
         else
           bnd (epoch_loop X a cfg train_loader val_loader [0..<nat (epochs cfg)]) (\<lambda>_.
           bnd (reads best_EPE) (\<lambda>best. ret (Some best))))
          (s\<lparr>opt := Some (if solver a = ''adam''
                     then adam X (params s) (bias_decay a) (weight_decay a) (lr a)
                            (momentum a, beta a)
                     else sgd X (params s) (bias_decay a) (weight_decay a) (lr a)
                            (momentum a))\<rparr>) \<and>
      script X a cfg train_loader val_loader p0 =
        main X a cfg train_loader val_loader (init_state p0))"
proof -
  have bad: "make_optimizer X a s = (Inl AssertionError, s)"
    if "solver a \<notin> set [''adam'', ''sgd'']" for s :: "('a, 'b) state"
    using that by (simp add: make_optimizer_def bnd_def raise_def)
  have good: "make_optimizer X a s =
        (Inr (), s\<lparr>opt := Some (if solver a = ''adam''
                     then adam X (params s) (bias_decay a) (weight_decay a) (lr a)
                            (momentum a, beta a)
                     else sgd X (params s) (bias_decay a) (weight_decay a) (lr a)
                            (momentum a))\<rparr>)"
    if "solver a \<in> set [''adam'', ''sgd'']" for s :: "('a, 'b) state"
    using that by (auto simp: make_optimizer_def bnd_def ret_def modify_def)
  show ?thesis
    using bad good
    by (simp add: script_def main_def parse_args_def bnd_def lift_def)
qed

theorem solver_checked_before_training_witness:
  "solver (default_args\<lparr>solver := ''lbfgs''\<rparr>) \<notin> set [''adam'', ''sgd''] \<and>
   script toy_env (default_args\<lparr>solver := ''lbfgs''\<rparr>) get_default_config
     (\<lambda>e. [toy_batch]) [toy_batch] 1 = (Inl SystemExit, init_state 1) \<and>
   main toy_env (default_args\<lparr>solver := ''lbfgs''\<rparr>) get_default_config
     (\<lambda>e. [toy_batch]) [toy_batch] (init_state 1) = (Inl AssertionError, init_state 1) \<and>
   solver default_args \<in> set [''adam'', ''sgd''] \<and>
   make_optimizer toy_env default_args (init_state 1) = (Inr (), (init_state 1)\<lparr>opt := Some 0\<rparr>)"
  using solver_checked_before_training [of "default_args\<lparr>solver := ''lbfgs''\<rparr>"
      toy_env get_default_config "\<lambda>e. [toy_batch]" "[toy_batch]" 1 "init_state 1"]
    solver_checked_before_training [of default_args
      toy_env get_default_config "\<lambda>e. [toy_batch]" "[toy_batch]" 1 "init_state 1"]
  by (simp add: default_args_def toy_env_def)

section \<open>The length of an epoch\<close>

lemma batch_loop_count:
  assumes body: "\<And>b ms. counts_one (body b ms)"
    and run: "batch_loop body esize it bs ms s = (Inr ms', s')"
  shows "n_iter s' = n_iter s + int (min (length bs) (nat (esize - int it) + 1))"
  using run
proof (induction bs arbitrary: it ms s)
  case Nil
  then show ?case by simp
next
  case (Cons b bs)
  obtain r s1 where b: "body b ms s = (r, s1)" by (cases "body b ms s")
  with Cons.prems obtain ms1 where r: "r = Inr ms1" by (cases r) auto
  have 1: "n_iter s1 = n_iter s + 1"
    using body [of b ms] b r by (auto simp: counts_one_def dest: spec [of _ s])
  show ?case
  proof (cases "esize \<le> int it")
    case True
    then show ?thesis using Cons.prems b r 1 by simp
  next
    case False
    then have "batch_loop body esize (Suc it) bs ms1 s1 = (Inr ms', s')"
      using Cons.prems b r by simp
    from Cons.IH [OF this] have "n_iter s' =
        n_iter s1 + int (min (length bs) (nat (esize - int (Suc it)) + 1))" .
    moreover have "nat (esize - int it) = nat (esize - int (Suc it)) + 1"
      using False by (simp add: nat_diff_distrib)
    ultimately show ?thesis using 1 by simp
  qed
qed

lemma train_count:
  assumes "train X a cfg bs epoch s = (Inr r, s')"
  shows "n_iter s' =
    n_iter s + int (min (length bs) (nat (train_epoch_size a (length bs)) + 1))"
proof -
  define body where "body = (if \<not> self_supervised_loss a then legacy_batch X a
             else if unflow a then unflow_batch X a cfg
             else selfsup_batch X a cfg)"
  have c: "counts_one (body b ms)" for b ms
    by (simp add: body_def counts_one_legacy_batch counts_one_unflow_batch
        counts_one_selfsup_batch)
  from assms obtain ms' where
    "batch_loop body (train_epoch_size a (length bs)) 0 bs (AverageMeter, AverageMeter)
       (s\<lparr>training := True\<rparr>) = (Inr ms', s')"
    unfolding train_def body_def [symmetric]
    by (auto simp: bnd_Inr_iff ret_Inr_iff modify_def)
  from batch_loop_count [OF c this] show ?thesis by simp
qed

lemmas toy_run =
  train_def train_epoch_size_def
  unflow_batch_run unflow_body_def unflow_loss_def census_term_def sl_term_def
  ssim_term_def fb_term_def census_loop_def sl_loop_def census_level_def sl_level_def
  legacy_batch_def selfsup_batch_def pl_level_def weighted_sl_level_def call_model_run
  ebind_def get_def scale_def cat_def log_item_run bnd_def lift_def ret_def update_def
  AverageMeter_def optimize_def count_iteration_def modify_def init_state_def
  toy_env_def toy_batch_def default_args_def get_default_config_def upt_conv_Cons

text \<open>
  C2, as the code behaves. With \<^verbatim>\<open>--epoch-size 1\<close> and a train loader of three
  batches, \<^verbatim>\<open>epoch_size\<close> is 1 = min(1, 3), yet the batch loop of each of the three
  variants runs two batches (two optimization steps, \<^verbatim>\<open>n_iter\<close> is 2): the test
  \<^verbatim>\<open>it >= epoch_size\<close> comes after the body of batch number \<^verbatim>\<open>epoch_size\<close>.
\<close>

theorem epoch_runs_one_batch_more:
  "train_epoch_size (default_args\<lparr>epoch_size := 1\<rparr>) (length [toy_batch, toy_batch, toy_batch]) = 1 \<and>
   n_iter (snd (train toy_env (default_args\<lparr>epoch_size := 1\<rparr>) get_default_config
     [toy_batch, toy_batch, toy_batch] 0 ((init_state 1)\<lparr>opt := Some 0\<rparr>))) = 2 \<and>
   n_iter (snd (train toy_env (default_args\<lparr>epoch_size := 1, unflow := False\<rparr>)
     get_default_config [toy_batch, toy_batch, toy_batch] 0 ((init_state 1)\<lparr>opt := Some 0\<rparr>))) = 2 \<and>
   n_iter (snd (train toy_env (default_args\<lparr>epoch_size := 1, self_supervised_loss := False\<rparr>)
     get_default_config [toy_batch, toy_batch, toy_batch] 0 ((init_state 1)\<lparr>opt := Some 0\<rparr>))) = 2 \<and>
   length (filter is_step (trace (snd (train toy_env (default_args\<lparr>epoch_size := 1\<rparr>)
     get_default_config [toy_batch, toy_batch, toy_batch] 0 ((init_state 1)\<lparr>opt := Some 0\<rparr>))))) = 2"
  by (simp add: toy_run)

section \<open>Checkpoints\<close>


lemma epoch_end_run:
  "epoch_end a epoch EPE s =
     (Inr (),
      s\<lparr>best_EPE := min EPE (if best_EPE s < 0 then EPE else best_EPE s),
        trace := trace s @
          [Scalar TestWriter ''mean EPE'' EPE (int epoch),
           Checkpoint
             \<lparr>ck_epoch = int epoch + 1, ck_arch = arch a, ck_state_dict = params s,
              ck_best_EPE = min EPE (if best_EPE s < 0 then EPE else best_EPE s),
              ck_div_flow = div_flow a\<rparr>
             (EPE < (if best_EPE s < 0 then EPE else best_EPE s))]\<rparr>)"
  by (simp add: epoch_end_def save_checkpoint_def bnd_def emit_def modify_def reads_def)









lemmas toy_script =
  script_def parse_args_def main_def make_optimizer_def epoch_step_def step_scheduler_def
  with_no_grad_def validate_def validate_batch_def call_model_eval_run epoch_end_run
  emit_def reads_def toy_loader_def toy_env_descent_def toy_run




subsection \<open>Two epochs of the small instance\<close>







section \<open>Validation\<close>

lemma validate_frame:
  "params (snd (validate X a val_loader epoch s)) = params s \<and>
   opt (snd (validate X a val_loader epoch s)) = opt s \<and>
   n_iter (snd (validate X a val_loader epoch s)) = n_iter s \<and>
   best_EPE (snd (validate X a val_loader epoch s)) = best_EPE s \<and>
   filter is_step (trace (snd (validate X a val_loader epoch s))) = filter is_step (trace s)"
proof -
  define V :: "('a, 'b) state \<Rightarrow> 'a \<times> 'b option \<times> int \<times> real \<times> 'a event list"
    where "V = (\<lambda>s. (params s, opt s, n_iter s, best_EPE s, filter is_step (trace s)))"
  have "quiet_effects (same V)"
    by (simp add: quiet_effects_def reflp_same transp_same) (simp add: same_def V_def)
  then have "relates (same V) (validate X a val_loader epoch)"
    by (rule relates_validate) (simp add: same_def V_def)
  then have "V (snd (validate X a val_loader epoch s)) = V s"
    by (simp add: relates_def same_def)
  then show ?thesis by (simp add: V_def)
qed

text \<open>
  C8, as the code behaves. In evaluation mode (\<^verbatim>\<open>--evaluate\<close>) the validation pass
  leaves the parameters, the optimizer and \<^verbatim>\<open>n_iter\<close> as they were and takes no
  optimization step, but its forward pass runs with gradient tracking on (the third
  field of the event); the validation pass of the epoch loop, under
  \<^verbatim>\<open>torch.no_grad()\<close>, runs with gradient tracking off.
\<close>

theorem evaluate_mode_tracks_gradients:
  "script toy_env (default_args\<lparr>evaluate := True\<rparr>) get_default_config toy_loader [toy_batch] 1 =
     (Inr None,
      \<lparr>params = 1, opt = Some 0, training = False, grad_enabled = True, n_iter = 0,
       best_EPE = 20, trace = [Forward [[1], [2]] False True]\<rparr>) \<and>
   trace (snd (with_no_grad (validate toy_env default_args [toy_batch] 0) (init_state 1))) =
     [Forward [[1], [2]] False False]"
  by (simp add: toy_script)

end
